theory Spec2Isabelle
  imports Main
begin

section \<open>The omnichannel transcript service\<close>

text \<open>
  A shallow embedding of \<^verbatim>\<open>ee/apps/omnichannel-transcript/src/OmnichannelTranscript.ts\<close>.

  The service is asynchronous TypeScript. Every \<^verbatim>\<open>await\<close> is modelled as a
  sequential step on an explicit state, the \<open>world\<close>: the document-store collections the
  service reads and writes, the work queue, the messages handed to the messaging and
  upload services, the log, and the two fields of the service object
  (\<open>maxNumberOfConcurrentJobs\<close>, \<open>currentJobNumber\<close>). One call is one function from world
  to world; the interleaving of several calls in flight is not modelled.

  A thrown \<^verbatim>\<open>Error\<close> is the left injection of a sum, so a call returns
  \<open>(error + 'a) \<times> world\<close>: the effects made before a throw stay in the world, as they do
  in the program.

  The collections \<^verbatim>\<open>LivechatRooms\<close>, \<^verbatim>\<open>Users\<close>, \<^verbatim>\<open>LivechatVisitors\<close> and
  \<^verbatim>\<open>Uploads\<close> are maps from ids to documents, read by lookup. Every other collaborator
  (message query, settings, translation, messaging, upload, renderer) is a field of the
  record \<open>env\<close> and may fail: it returns a sum, or an optional error for a call without
  result.
\<close>

subsection \<open>Errors and promises\<close>

datatype error = Error (err_message: string)

type_synonym 'a result = "error + 'a"

text \<open>
  \<^verbatim>\<open>Promise.all\<close>: when no promise rejects, the array of values in the order of the
  input array; otherwise the reason of the promise that rejects first in time. Which one
  that is depends on the completion order; it is chosen by \<open>race\<close> among the positions of
  the rejected promises (a choice outside them falls back to the leftmost).
\<close>

definition rejected :: "'a result list \<Rightarrow> nat list" where
  "rejected rs = filter (\<lambda>i. isl (rs ! i)) [0..<length rs]"

definition promise_all :: "(nat list \<Rightarrow> nat) \<Rightarrow> 'a result list \<Rightarrow> 'a list result" where
  "promise_all race rs =
     (case rejected rs of
        [] \<Rightarrow> Inr (map projr rs)
      | i # is \<Rightarrow>
          (let j = race (i # is)
           in Inl (projl (rs ! (if j \<in> set (i # is) then j else i)))))"

definition void :: "'a result \<Rightarrow> unit result" where
  "void r = (case r of Inl e \<Rightarrow> Inl e | Inr _ \<Rightarrow> Inr ())"

text \<open>A template literal prints a missing value as \<^verbatim>\<open>undefined\<close>.\<close>

definition interpolate :: "string option \<Rightarrow> string" where
  "interpolate s = (case s of None \<Rightarrow> ''undefined'' | Some x \<Rightarrow> x)"

text \<open>Truthiness of an optional string: present and not empty.\<close>

definition truthy :: "string option \<Rightarrow> bool" where
  "truthy s = (case s of None \<Rightarrow> False | Some x \<Rightarrow> x \<noteq> [])"

subsection \<open>Documents\<close>

text \<open>
  The fields of a livechat room the service reads: \<^verbatim>\<open>open\<close>, \<^verbatim>\<open>servedBy\<close> and \<^verbatim>\<open>v\<close>
  (each reduced to the \<^verbatim>\<open>_id\<close> it carries), \<^verbatim>\<open>pdfTranscriptRequested\<close>,
  \<^verbatim>\<open>pdfTranscriptFileId\<close> and \<^verbatim>\<open>closedAt\<close>.
\<close>

record room =
  room_id :: string
  room_open :: bool
  room_servedBy :: "string option"
  room_v :: "string option"
  pdfTranscriptRequested :: bool
  pdfTranscriptFileId :: "string option"
  room_closedAt :: "int option"

datatype utc_offset = OffsetString string | OffsetNumber int

record user =
  user_id :: string
  user_name :: "string option"
  user_username :: "string option"
  user_utcOffset :: "utc_offset option"
  user_is_agent :: bool

record visitor =
  visitor_id :: string
  visitor_name :: "string option"
  visitor_username :: "string option"

type_synonym buffer = "nat list"

record upload =
  upload_id :: string
  upload_name :: string

record attachment =
  att_type :: "string option"
  att_image_type :: "string option"
  att_title :: "string option"
  att_title_link :: "string option"
  att_description :: "string option"

record file_prop =
  fp_id :: string
  fp_name :: string

record message_doc =
  m_id :: string
  m_rid :: "string option"
  m_msg :: string
  m_u :: string
  m_ts :: int
  m_md :: "string option"
  m_attachments :: "attachment list option"
  m_files :: "file_prop list option"

text \<open>\<^verbatim>\<open>MessageWithFiles\<close>; an entry of \<open>files\<close> with \<open>fe_buffer = None\<close> is a placeholder.\<close>

record file_entry =
  fe_name :: "string option"
  fe_buffer :: "buffer option"

record message_with_files =
  mf_id :: string
  mf_ts :: int
  mf_u :: string
  mf_msg :: string
  mf_md :: "string option"
  mf_files :: "file_entry list"

text \<open>\<^verbatim>\<open>WorkDetails\<close> and \<^verbatim>\<open>WorkDetailsWithSource\<close> (\<open>wd_from = None\<close> in the former).\<close>

record work_details =
  wd_rid :: string
  wd_userId :: string
  wd_from :: "string option"

record work_item =
  wi_queue :: string
  wi_handler :: string
  wi_template :: string
  wi_details :: work_details

record worker_data =
  wk_siteName :: string
  wk_visitor :: "visitor option"
  wk_agent :: "user option"
  wk_closedAt :: "int option"
  wk_messages :: "message_with_files list"
  wk_timezone :: string
  wk_dateFormat :: string
  wk_timeAndDateFormat :: string
  wk_translations :: "(string \<times> string) list"

text \<open>
  A render stream on which \<open>doRender\<close> has registered its two listeners: the chunks the
  \<^verbatim>\<open>data\<close> listener will have collected when \<^verbatim>\<open>end\<close> fires, and what the \<^verbatim>\<open>end\<close>
  listener has captured.
\<close>

record pending_stream =
  ps_chunks :: "buffer list"
  ps_transcriptText :: string
  ps_data :: worker_data
  ps_details :: work_details

datatype log_entry =
    LogInfo string
  | LogError string
  | LogDebug string
  | LogErrorObject string error

text \<open>Writes on \<^verbatim>\<open>LivechatRooms\<close>, in the order they are issued.\<close>

datatype store_write =
    SetTranscriptRequestedPdf string
  | UnsetTranscriptRequestedPdf string
  | SetPdfTranscriptFileId string string

text \<open>Calls the messaging and upload services have accepted, in order.\<close>

datatype outbound =
    DirectMessage string string string
  | SendMessage string string string
  | SendFileMessage string string upload string
  | UploadFile string buffer string string

text \<open>
  Besides the two fields of the service object, the world keeps in \<open>counter_writes\<close> every
  value the program assigns to \<open>currentJobNumber\<close>, in order, so that a property can speak
  of the counter while a call runs and not only of its value afterwards.
\<close>

record world =
  rooms :: "string \<rightharpoonup> room"
  users :: "string \<rightharpoonup> user"
  visitors :: "string \<rightharpoonup> visitor"
  uploads :: "string \<rightharpoonup> upload"
  queue :: "work_item list"
  writes :: "store_write list"
  sent :: "outbound list"
  streams :: "pending_stream list"
  log :: "log_entry list"
  maxNumberOfConcurrentJobs :: int
  currentJobNumber :: int
  counter_writes :: "int list"

record env =
  isMimeTypeValid :: "string option \<Rightarrow> bool"
  getFileBuffer :: "string \<Rightarrow> upload \<Rightarrow> buffer result"
  findLivechatMessagesWithoutClosing :: "string \<Rightarrow> message_doc list result"
  settings_get :: "string \<Rightarrow> string result"
  translateToServerLanguage :: "string \<Rightarrow> string result"
  translate :: "string \<Rightarrow> user \<Rightarrow> string result"
  createDirectMessage :: "string \<Rightarrow> string \<Rightarrow> string result"
  sendMessage :: "string \<Rightarrow> string \<Rightarrow> string \<Rightarrow> error option"
  sendFileMessage :: "string \<Rightarrow> string \<Rightarrow> upload \<Rightarrow> string \<Rightarrow> error option"
  uploadFile :: "string \<Rightarrow> buffer \<Rightarrow> string \<Rightarrow> string \<Rightarrow> upload result"
  renderToStream :: "string \<Rightarrow> worker_data \<Rightarrow> buffer list result"
  guessTimezone :: string
  guessTimezoneFromOffset :: "utc_offset \<Rightarrow> string"
  today :: string
  json_stringify :: "attachment \<Rightarrow> string"
  race :: "nat list \<Rightarrow> nat"

definition add_log :: "log_entry \<Rightarrow> world \<Rightarrow> world" where
  "add_log l w = w\<lparr>log := log w @ [l]\<rparr>"

definition add_sent :: "outbound \<Rightarrow> world \<Rightarrow> world" where
  "add_sent x w = w\<lparr>sent := sent w @ [x]\<rparr>"

text \<open>The service object as the constructor leaves it, over given collections.\<close>

definition new_service ::
  "(string \<rightharpoonup> room) \<Rightarrow> (string \<rightharpoonup> user) \<Rightarrow> (string \<rightharpoonup> visitor) \<Rightarrow> (string \<rightharpoonup> upload) \<Rightarrow> world" where
  "new_service rs us vs ups =
     \<lparr>rooms = rs, users = us, visitors = vs, uploads = ups, queue = [], writes = [],
      sent = [], streams = [], log = [], maxNumberOfConcurrentJobs = 25,
      currentJobNumber = 0, counter_writes = []\<rparr>"

definition service_name :: string where
  "service_name = ''omnichannel-transcript''"

subsection \<open>Writes on the room collection\<close>

text \<open>
  Modelled from the spec: the three \<^verbatim>\<open>LivechatRooms\<close> updates (the model class is not
  part of the sources): "set/unset 'transcript requested' flag; set 'transcript file id'
  on room". Each updates the one room with the given id, if there is one, and is recorded
  in \<open>writes\<close>.
\<close>

definition update_room :: "string \<Rightarrow> (room \<Rightarrow> room) \<Rightarrow> world \<Rightarrow> world" where
  "update_room rid f w =
     (case rooms w rid of None \<Rightarrow> w | Some r \<Rightarrow> w\<lparr>rooms := (rooms w)(rid \<mapsto> f r)\<rparr>)"

definition setTranscriptRequestedPdfById :: "string \<Rightarrow> world \<Rightarrow> world" where
  "setTranscriptRequestedPdfById rid w =
     (update_room rid (\<lambda>r. r\<lparr>pdfTranscriptRequested := True\<rparr>) w)
       \<lparr>writes := writes w @ [SetTranscriptRequestedPdf rid]\<rparr>"

definition unsetTranscriptRequestedPdfById :: "string \<Rightarrow> world \<Rightarrow> world" where
  "unsetTranscriptRequestedPdfById rid w =
     (update_room rid (\<lambda>r. r\<lparr>pdfTranscriptRequested := False\<rparr>) w)
       \<lparr>writes := writes w @ [UnsetTranscriptRequestedPdf rid]\<rparr>"

definition setPdfTranscriptFileIdById :: "string \<Rightarrow> string \<Rightarrow> world \<Rightarrow> world" where
  "setPdfTranscriptFileIdById rid fid w =
     (update_room rid (\<lambda>r. r\<lparr>pdfTranscriptFileId := Some fid\<rparr>) w)
       \<lparr>writes := writes w @ [SetPdfTranscriptFileId rid fid]\<rparr>"

subsection \<open>requestTranscript\<close>

definition job_tag :: "work_details \<Rightarrow> string" where
  "job_tag details = ''room '' @ wd_rid details @ '' by user '' @ wd_userId details"

definition requestTranscript :: "work_details \<Rightarrow> world \<Rightarrow> unit result \<times> world" where
  "requestTranscript details w =
     (let w1 = add_log (LogInfo (''Requesting transcript for '' @ job_tag details)) w
      in case rooms w1 (wd_rid details) of
           None \<Rightarrow> (Inl (Error ''room-not-found''), w1)
         | Some room \<Rightarrow>
             if room_open room then (Inl (Error ''room-still-open''), w1)
             else if room_servedBy room = None \<or> room_v room = None
               then (Inl (Error ''improper-room-state''), w1)
             else if pdfTranscriptRequested room
               then (Inr (),
                     add_log (LogInfo (''Transcript already requested for room '' @ wd_rid details)) w1)
             else
               (let w2 = setTranscriptRequestedPdfById (wd_rid details) w1;
                    w3 = add_log (LogInfo (''Queuing work for room '' @ wd_rid details)) w2
                in (Inr (),
                    w3\<lparr>queue := queue w3 @
                       [\<lparr>wi_queue = ''work'',
                         wi_handler = service_name @ ''.workOnPdf'',
                         wi_template = ''omnichannel-transcript'',
                         wi_details = \<lparr>wd_rid = wd_rid details,
                                        wd_userId = wd_userId details,
                                        wd_from = Some service_name\<rparr>\<rparr>]\<rparr>)))"

subsection \<open>File resolution\<close>

text \<open>
  The first capture group of the leftmost match of \<^verbatim>\<open>/\/file-upload\/(.*)\/.*/\<close>.
  The dot does not match a line terminator, so after the literal prefix the greedy group
  runs to the last slash of the current line. Strings are lists of 8-bit characters
  here, so of the four line terminators of the language only line feed and carriage
  return can occur.
\<close>

definition line_terminator :: "char \<Rightarrow> bool" where
  "line_terminator c \<longleftrightarrow> c = CHR 0x0A \<or> c = CHR 0x0D"

definition match_here :: "string \<Rightarrow> string option" where
  "match_here s =
     (if take 13 s = ''/file-upload/'' then
        (let line = takeWhile (\<lambda>c. \<not> line_terminator c) (drop 13 s)
         in if CHR ''/'' \<in> set line
            then Some (rev (tl (dropWhile (\<lambda>c. c \<noteq> CHR ''/'') (rev line))))
            else None)
      else None)"

fun file_upload_id :: "string \<Rightarrow> string option" where
  "file_upload_id [] = None"
| "file_upload_id (c # s) =
     (case match_here (c # s) of Some g \<Rightarrow> Some g | None \<Rightarrow> file_upload_id s)"

text \<open>
  The \<^verbatim>\<open>{_id, name}\<close> the attachment is backed by: the entry of \<^verbatim>\<open>message.files\<close>
  whose name is the attachment's title, else the id taken from \<^verbatim>\<open>title_link\<close> (with
  the title, or \<^verbatim>\<open>upload\<close>, as name), else nothing.
\<close>

definition find_by_title :: "message_doc \<Rightarrow> attachment \<Rightarrow> file_prop option" where
  "find_by_title message attachment =
     (case m_files message of
        None \<Rightarrow> None
      | Some fs \<Rightarrow> find (\<lambda>file. Some (fp_name file) = att_title attachment) fs)"

definition title_link_id :: "attachment \<Rightarrow> string option" where
  "title_link_id attachment =
     (case att_title_link attachment of None \<Rightarrow> None | Some l \<Rightarrow> file_upload_id l)"

definition locate_file :: "message_doc \<Rightarrow> attachment \<Rightarrow> file_prop option" where
  "locate_file message attachment =
     (case find_by_title message attachment of
        Some file \<Rightarrow> Some file
      | None \<Rightarrow>
          (if truthy (title_link_id attachment)
           then Some \<lparr>fp_id = the (title_link_id attachment),
                      fp_name = (if truthy (att_title attachment)
                                 then the (att_title attachment) else ''upload'')\<rparr>
           else None))"

text \<open>
  The body of the inner \<^verbatim>\<open>map\<close> of \<open>getFiles\<close>: the lines it logs and what its promise
  settles to (\<open>Inr None\<close> is \<^verbatim>\<open>undefined\<close>, an attachment that is not a file).
\<close>

definition resolveAttachment ::
  "env \<Rightarrow> world \<Rightarrow> string \<Rightarrow> message_doc \<Rightarrow> attachment \<Rightarrow> log_entry list \<times> file_entry option result" where
  "resolveAttachment env w userId message attachment =
     (let l0 = [LogError (json_stringify env attachment)];
          not_found = ''File '' @ interpolate (att_title attachment) @ '' not found in room ''
                        @ interpolate (m_rid message) @ ''!''
      in if att_type attachment \<noteq> Some ''file'' then
           (l0 @ [LogError (''Invalid attachment type '' @ interpolate (att_type attachment)
                    @ '' for file '' @ interpolate (att_title attachment) @ '' in room ''
                    @ interpolate (m_rid message) @ ''!'')],
            Inr None)
         else if \<not> isMimeTypeValid env (att_image_type attachment) then
           (l0 @ [LogError (''Invalid mime type '' @ interpolate (att_image_type attachment)
                    @ '' for file '' @ interpolate (att_title attachment) @ '' in room ''
                    @ interpolate (m_rid message) @ ''!'')],
            Inr (Some \<lparr>fe_name = att_title attachment, fe_buffer = None\<rparr>))
         else
           (let l1 = l0 @ (if find_by_title message attachment = None
                           then [LogDebug not_found] else [])
            in case locate_file message attachment of
                 None \<Rightarrow>
                   (l1 @ [LogError not_found],
                    Inr (Some \<lparr>fe_name = att_title attachment, fe_buffer = None\<rparr>))
               | Some file \<Rightarrow>
                   (case uploads w (fp_id file) of
                      None \<Rightarrow>
                        (l1 @ [LogError (''Uploaded file '' @ fp_id file
                                 @ '' not found in room '' @ interpolate (m_rid message) @ ''!'')],
                         Inr (Some \<lparr>fe_name = Some (fp_name file), fe_buffer = None\<rparr>))
                    | Some uploadedFile \<Rightarrow>
                        (case getFileBuffer env userId uploadedFile of
                           Inl e \<Rightarrow> (l1, Inl e)
                         | Inr fileBuffer \<Rightarrow>
                             (l1, Inr (Some \<lparr>fe_name = Some (fp_name file),
                                              fe_buffer = Some fileBuffer\<rparr>))))))"

text \<open>
  \<^verbatim>\<open>message.msg || message.attachments.find((a) => a.description)?.description || ''\<close>
\<close>

definition message_text :: "message_doc \<Rightarrow> attachment list \<Rightarrow> string" where
  "message_text message atts =
     (if m_msg message \<noteq> [] then m_msg message
      else case find (\<lambda>attachment. truthy (att_description attachment)) atts of
             None \<Rightarrow> []
           | Some attachment \<Rightarrow>
               (if truthy (att_description attachment)
                then the (att_description attachment) else []))"

text \<open>The body of the outer \<^verbatim>\<open>map\<close> of \<open>getFiles\<close>.\<close>

definition resolveMessage ::
  "env \<Rightarrow> world \<Rightarrow> string \<Rightarrow> message_doc \<Rightarrow> log_entry list \<times> message_with_files result" where
  "resolveMessage env w userId message =
     (if m_attachments message = None \<or> m_attachments message = Some [] then
        ([], Inr \<lparr>mf_id = m_id message, mf_ts = m_ts message, mf_u = m_u message,
                  mf_msg = m_msg message, mf_md = m_md message, mf_files = []\<rparr>)
      else
        (let atts = the (m_attachments message);
             rs = map (resolveAttachment env w userId message) atts
         in (concat (map fst rs),
             case promise_all (race env) (map snd rs) of
               Inl e \<Rightarrow> Inl e
             | Inr files \<Rightarrow>
                 Inr \<lparr>mf_id = m_id message, mf_ts = m_ts message, mf_u = m_u message,
                      mf_msg = message_text message atts, mf_md = None,
                      mf_files = List.map_filter (\<lambda>f. f) files\<rparr>)))"

definition getFiles ::
  "env \<Rightarrow> string \<Rightarrow> message_doc list \<Rightarrow> world \<Rightarrow> message_with_files list result \<times> world" where
  "getFiles env userId messages w =
     (let rs = map (resolveMessage env w userId) messages
      in (promise_all (race env) (map snd rs), w\<lparr>log := log w @ concat (map fst rs)\<rparr>))"

subsection \<open>Time zone and translations\<close>

definition offset_truthy :: "utc_offset \<Rightarrow> bool" where
  "offset_truthy off = (case off of OffsetString s \<Rightarrow> s \<noteq> [] | OffsetNumber n \<Rightarrow> n \<noteq> 0)"

definition getTimezone :: "env \<Rightarrow> user option \<Rightarrow> string result" where
  "getTimezone env usr =
     (case settings_get env ''Default_Timezone_For_Reporting'' of
        Inl e \<Rightarrow> Inl e
      | Inr reportingTimezone \<Rightarrow>
          if reportingTimezone = ''custom'' then settings_get env ''Default_Custom_Timezone''
          else if reportingTimezone = ''user'' then
            (case usr of
               None \<Rightarrow> Inr (guessTimezone env)
             | Some u \<Rightarrow>
                 (case user_utcOffset u of
                    None \<Rightarrow> Inr (guessTimezone env)
                  | Some off \<Rightarrow>
                      if offset_truthy off then Inr (guessTimezoneFromOffset env off)
                      else Inr (guessTimezone env)))
          else Inr (guessTimezone env))"

definition translation_keys :: "string list" where
  "translation_keys =
     [''Agent'', ''Date'', ''Customer'', ''Omnichannel_Agent'', ''Time'', ''Chat_transcript'',
      ''This_attachment_is_not_supported'']"

definition getTranslations :: "env \<Rightarrow> (string \<times> string) list result" where
  "getTranslations env =
     promise_all (race env)
       (map (\<lambda>key. case translateToServerLanguage env key of
                      Inl e \<Rightarrow> Inl e
                    | Inr val \<Rightarrow> Inr (key, val))
            translation_keys)"

subsection \<open>Failure and completion\<close>

definition pdfFailed :: "env \<Rightarrow> work_details \<Rightarrow> error \<Rightarrow> world \<Rightarrow> unit result \<times> world" where
  "pdfFailed env details e w =
     (let w1 = add_log (LogError (''Transcript for '' @ job_tag details @ '' - Failed: ''
                          @ err_message e)) w
      in case rooms w1 (wd_rid details) of
           None \<Rightarrow> (Inr (), w1)
         | Some room \<Rightarrow>
             (case users w1 (wd_userId details) of
                None \<Rightarrow> (Inr (), w1)
              | Some usr \<Rightarrow>
                  (let w2 = unsetTranscriptRequestedPdfById (wd_rid details) w1
                   in case createDirectMessage env (wd_userId details) ''rocket.cat'' of
                        Inl x \<Rightarrow> (Inl x, w2)
                      | Inr rid \<Rightarrow>
                          (let w3 = add_log (LogInfo (''Transcript for '' @ job_tag details
                                       @ '' - Sending error message to user''))
                                     (add_sent (DirectMessage (wd_userId details) ''rocket.cat'' rid) w2)
                           in case translate env ''pdf_error_message'' usr of
                                Inl x \<Rightarrow> (Inl x, w3)
                              | Inr t \<Rightarrow>
                                  (case sendMessage env ''rocket.cat'' rid (t @ '': '' @ err_message e) of
                                     Some x \<Rightarrow> (Inl x, w3)
                                   | None \<Rightarrow>
                                       (Inr (),
                                        add_sent (SendMessage ''rocket.cat'' rid
                                                    (t @ '': '' @ err_message e)) w3))))))"

text \<open>
  The \<^verbatim>\<open>try\<close> block of \<open>pdfComplete\<close>. Of the two promises of its \<^verbatim>\<open>Promise.all\<close>
  only \<^verbatim>\<open>createDirectMessage\<close> can reject here, and the room update has been issued by
  then. The message of each \<^verbatim>\<open>sendFileMessage\<close> is awaited before that call is made,
  so the first file message is on its way when the second translation fails.
  \<^verbatim>\<open>Promise.allSettled\<close> waits for both, and the leftmost rejection is thrown.
\<close>

definition send_file ::
  "env \<Rightarrow> string \<Rightarrow> upload \<Rightarrow> string \<Rightarrow> world \<Rightarrow> world" where
  "send_file env roomId file m w =
     (if sendFileMessage env roomId ''rocket.cat'' file m = None
      then add_sent (SendFileMessage roomId ''rocket.cat'' file m) w else w)"

definition pdfComplete_try ::
  "env \<Rightarrow> work_details \<Rightarrow> upload \<Rightarrow> user \<Rightarrow> world \<Rightarrow> unit result \<times> world" where
  "pdfComplete_try env details file usr w =
     (let w2 = setPdfTranscriptFileIdById (wd_rid details) (upload_id file) w
      in case createDirectMessage env (wd_userId details) ''rocket.cat'' of
           Inl x \<Rightarrow> (Inl x, w2)
         | Inr rid \<Rightarrow>
             (let w3 = add_log (LogInfo (''Transcript for '' @ job_tag details
                          @ '' - Sending success message to user''))
                        (add_sent (DirectMessage (wd_userId details) ''rocket.cat'' rid) w2)
              in case translateToServerLanguage env ''pdf_success_message'' of
                   Inl x \<Rightarrow> (Inl x, w3)
                 | Inr m1 \<Rightarrow>
                     (let w4 = send_file env (wd_rid details) file m1 w3
                      in case translate env ''pdf_success_message'' usr of
                           Inl x \<Rightarrow> (Inl x, w4)
                         | Inr m2 \<Rightarrow>
                             (let w5 = send_file env rid file m2 w4
                              in case sendFileMessage env (wd_rid details) ''rocket.cat'' file m1 of
                                   Some x \<Rightarrow> (Inl x, w5)
                                 | None \<Rightarrow>
                                     (case sendFileMessage env rid ''rocket.cat'' file m2 of
                                        Some x \<Rightarrow> (Inl x, w5)
                                      | None \<Rightarrow> (Inr (), w5))))))"

definition pdfComplete :: "env \<Rightarrow> work_details \<Rightarrow> upload \<Rightarrow> world \<Rightarrow> unit result \<times> world" where
  "pdfComplete env details file w =
     (let w1 = add_log (LogInfo (''Transcript for '' @ job_tag details @ '' - Complete'')) w
      in case users w1 (wd_userId details) of
           None \<Rightarrow> (Inr (), w1)
         | Some usr \<Rightarrow>
             (case pdfComplete_try env details file usr w1 of
                (Inl err, w2) \<Rightarrow>
                  (Inr (),
                   add_log (LogErrorObject (''Transcript for '' @ job_tag details
                              @ '' - Failed to send message'') err) w2)
              | (Inr _, w2) \<Rightarrow> (Inr (), w2)))"

subsection \<open>Rendering\<close>

text \<open>
  \<open>doRender\<close> awaits the translation and the stream, registers the \<^verbatim>\<open>data\<close> and
  \<^verbatim>\<open>end\<close> listeners and returns: the upload and what follows it run when the stream
  ends, after \<open>workOnPdf\<close> has returned. The registered stream is kept in \<open>streams\<close>;
  \<open>stream_on_end\<close> is the \<^verbatim>\<open>end\<close> listener. No \<^verbatim>\<open>error\<close> listener is registered.
\<close>

definition doRender ::
  "env \<Rightarrow> string \<Rightarrow> worker_data \<Rightarrow> work_details \<Rightarrow> world \<Rightarrow> unit result \<times> world" where
  "doRender env template data details w =
     (case translateToServerLanguage env ''Transcript'' of
        Inl e \<Rightarrow> (Inl e, w)
      | Inr transcriptText \<Rightarrow>
          (case renderToStream env template data of
             Inl e \<Rightarrow> (Inl e, w)
           | Inr chunks \<Rightarrow>
               (Inr (),
                w\<lparr>streams := streams w @
                     [\<lparr>ps_chunks = chunks, ps_transcriptText = transcriptText,
                       ps_data = data, ps_details = details\<rparr>]\<rparr>)))"

definition visitor_display_name :: "visitor option \<Rightarrow> string" where
  "visitor_display_name vis =
     (case vis of
        None \<Rightarrow> ''Visitor''
      | Some x \<Rightarrow>
          if truthy (visitor_name x) then the (visitor_name x)
          else if truthy (visitor_username x) then the (visitor_username x)
          else ''Visitor'')"

definition transcript_file_name :: "env \<Rightarrow> pending_stream \<Rightarrow> string" where
  "transcript_file_name env p =
     ps_transcriptText p @ ''_'' @ wk_siteName (ps_data p) @ ''_'' @ today env @ ''_''
       @ visitor_display_name (wk_visitor (ps_data p)) @ ''.pdf''"

text \<open>
  \<^verbatim>\<open>uploadFile(...).then((file) => pdfComplete(...)).catch((e) => pdfFailed(...))\<close>:
  the handler of \<^verbatim>\<open>catch\<close> also receives what \<open>pdfComplete\<close> throws; what \<open>pdfFailed\<close>
  throws there rejects the promise the listener returns, which nothing awaits.
\<close>

definition stream_on_end :: "env \<Rightarrow> pending_stream \<Rightarrow> world \<Rightarrow> unit result \<times> world" where
  "stream_on_end env p w =
     (let outBuff = concat (ps_chunks p);
          details = ps_details p
      in case uploadFile env (wd_userId details) outBuff (transcript_file_name env p)
                (wd_rid details) of
           Inl e \<Rightarrow> pdfFailed env details e w
         | Inr file \<Rightarrow>
             (case pdfComplete env details file
                     (add_sent (UploadFile (wd_userId details) outBuff
                                  (transcript_file_name env p) (wd_rid details)) w) of
                (Inl e, w1) \<Rightarrow> pdfFailed env details e w1
              | (Inr _, w1) \<Rightarrow> (Inr (), w1)))"

subsection \<open>workOnPdf\<close>

text \<open>
  Modelled from the spec: \<^verbatim>\<open>Users.findOneAgentById\<close> (the model class is not part of
  the sources), "resolve visitor and agent projections": the user with that id, when it
  is an agent.
\<close>

definition findOneAgentById :: "world \<Rightarrow> string \<Rightarrow> user option" where
  "findOneAgentById w aid =
     (case users w aid of
        None \<Rightarrow> None
      | Some u \<Rightarrow> if user_is_agent u then Some u else None)"

text \<open>The \<^verbatim>\<open>try\<close> block of \<open>workOnPdf\<close>.\<close>

definition workOnPdf_try ::
  "env \<Rightarrow> string \<Rightarrow> work_details \<Rightarrow> world \<Rightarrow> unit result \<times> world" where
  "workOnPdf_try env template details w =
     (case rooms w (wd_rid details) of
        None \<Rightarrow> (Inl (Error ''room-not-found''), w)
      | Some room \<Rightarrow>
          (case findLivechatMessagesWithoutClosing env (room_id room) of
             Inl e \<Rightarrow> (Inl e, w)
           | Inr messages \<Rightarrow>
               (let vis = (case room_v room of None \<Rightarrow> None | Some i \<Rightarrow> visitors w i);
                    agent = (case room_servedBy room of
                               None \<Rightarrow> None | Some i \<Rightarrow> findOneAgentById w i)
                in case getFiles env (wd_userId details) messages w of
                     (Inl e, w1) \<Rightarrow> (Inl e, w1)
                   | (Inr messagesFiles, w1) \<Rightarrow>
                       (let siteName = settings_get env ''Site_Name'';
                            dateFormat = settings_get env ''Message_DateFormat'';
                            timeAndDateFormat = settings_get env ''Message_TimeAndDateFormat'';
                            timezone = getTimezone env agent;
                            translations = getTranslations env
                        in case promise_all (race env)
                                  [void siteName, void dateFormat, void timeAndDateFormat,
                                   void timezone, void translations] of
                             Inl e \<Rightarrow> (Inl e, w1)
                           | Inr _ \<Rightarrow>
                               doRender env template
                                 \<lparr>wk_siteName = projr siteName, wk_visitor = vis,
                                  wk_agent = agent, wk_closedAt = room_closedAt room,
                                  wk_messages = messagesFiles,
                                  wk_timezone = projr timezone,
                                  wk_dateFormat = projr dateFormat,
                                  wk_timeAndDateFormat = projr timeAndDateFormat,
                                  wk_translations = projr translations\<rparr>
                                 details w1))))"

text \<open>Past the admission check: the first log line and \<^verbatim>\<open>this.currentJobNumber++\<close>.\<close>

definition workOnPdf_enter :: "work_details \<Rightarrow> world \<Rightarrow> world" where
  "workOnPdf_enter details w =
     (let w1 = add_log (LogInfo (''Processing transcript for '' @ job_tag details
                  @ '' - Received from queue'')) w
      in w1\<lparr>currentJobNumber := currentJobNumber w1 + 1,
            counter_writes := counter_writes w1 @ [currentJobNumber w1 + 1]\<rparr>)"

text \<open>The \<^verbatim>\<open>catch\<close> clause, applied to the outcome of the \<^verbatim>\<open>try\<close> block.\<close>

definition workOnPdf_catch ::
  "env \<Rightarrow> work_details \<Rightarrow> unit result \<times> world \<Rightarrow> unit result \<times> world" where
  "workOnPdf_catch env details rw =
     (case rw of
        (Inl e, w) \<Rightarrow> pdfFailed env details e w
      | (Inr _, w) \<Rightarrow> (Inr (), w))"

text \<open>The \<^verbatim>\<open>finally\<close> clause: \<^verbatim>\<open>this.currentJobNumber--\<close>, whatever the outcome.\<close>

definition workOnPdf_finally :: "unit result \<times> world \<Rightarrow> unit result \<times> world" where
  "workOnPdf_finally rw =
     (fst rw,
      (snd rw)\<lparr>currentJobNumber := currentJobNumber (snd rw) - 1,
               counter_writes := counter_writes (snd rw) @ [currentJobNumber (snd rw) - 1]\<rparr>)"

definition workOnPdf ::
  "env \<Rightarrow> string \<Rightarrow> work_details \<Rightarrow> world \<Rightarrow> unit result \<times> world" where
  "workOnPdf env template details w =
     (if maxNumberOfConcurrentJobs w \<le> currentJobNumber w then
        (Inl (Error ''retry''),
         add_log (LogError (''Processing transcript for '' @ job_tag details
                    @ '' - Too many concurrent jobs, queuing again''))
           (add_log (LogInfo (''Processing transcript for '' @ job_tag details
                       @ '' - Received from queue'')) w))
      else
        workOnPdf_finally
          (workOnPdf_catch env details
             (workOnPdf_try env template details (workOnPdf_enter details w))))"

subsection \<open>What the specification expects\<close>

text \<open>
  The text of a transcript message in the specification's words: the message body when
  it is not empty, otherwise the description of the first attachment that has one,
  otherwise the empty string. A description that is the empty string counts as absent,
  as an empty body does.
\<close>

definition attachments_of :: "message_doc \<Rightarrow> attachment list" where
  "attachments_of m = (case m_attachments m of None \<Rightarrow> [] | Some as \<Rightarrow> as)"

definition descriptions :: "message_doc \<Rightarrow> string list" where
  "descriptions m =
     filter (\<lambda>d. d \<noteq> []) (List.map_filter att_description (attachments_of m))"

definition expected_text :: "message_doc \<Rightarrow> string" where
  "expected_text m =
     (if m_msg m \<noteq> [] then m_msg m
      else case descriptions m of [] \<Rightarrow> [] | d # _ \<Rightarrow> d)"

text \<open>
  An attachment whose resolution reaches \<^verbatim>\<open>getFileBuffer\<close> and finds it rejecting: a
  file attachment of a valid mime type, backed by a located file with an upload record.
\<close>

definition buffer_fetch_fails ::
  "env \<Rightarrow> world \<Rightarrow> string \<Rightarrow> message_doc \<Rightarrow> attachment \<Rightarrow> bool" where
  "buffer_fetch_fails env w userId m a \<longleftrightarrow>
     att_type a = Some ''file'' \<and> isMimeTypeValid env (att_image_type a) \<and>
     (case locate_file m a of
        None \<Rightarrow> False
      | Some file \<Rightarrow>
          (case uploads w (fp_id file) of
             None \<Rightarrow> False
           | Some up \<Rightarrow> isl (getFileBuffer env userId up)))"

subsection \<open>Test doubles\<close>

text \<open>Collaborators that all answer, and rooms, users and messages to run the service on.\<close>

definition env_ok :: env where
  "env_ok =
     \<lparr>isMimeTypeValid = (\<lambda>t. t = Some ''image/png''),
      getFileBuffer = (\<lambda>_ _. Inr [137, 80, 78, 71]),
      findLivechatMessagesWithoutClosing = (\<lambda>_. Inr []),
      settings_get = (\<lambda>k. Inr (''<'' @ k @ ''>'')),
      translateToServerLanguage = (\<lambda>k. Inr k),
      translate = (\<lambda>k _. Inr k),
      createDirectMessage = (\<lambda>_ _. Inr ''dm1''),
      sendMessage = (\<lambda>_ _ _. None),
      sendFileMessage = (\<lambda>_ _ _ _. None),
      uploadFile = (\<lambda>_ _ n _. Inr \<lparr>upload_id = ''pdf1'', upload_name = n\<rparr>),
      renderToStream = (\<lambda>_ _. Inr [[37, 80], [68, 70]]),
      guessTimezone = ''UTC'',
      guessTimezoneFromOffset = (\<lambda>_. ''UTC''),
      today = ''11/2/2026'',
      json_stringify = (\<lambda>_. ''{}''),
      race = hd\<rparr>"

definition closed_room :: room where
  "closed_room =
     \<lparr>room_id = ''r1'', room_open = False, room_servedBy = Some ''a1'', room_v = Some ''v1'',
      pdfTranscriptRequested = False, pdfTranscriptFileId = None,
      room_closedAt = Some 1700000000\<rparr>"

definition requester :: user where
  "requester =
     \<lparr>user_id = ''u1'', user_name = Some ''Ann'', user_username = Some ''ann'',
      user_utcOffset = Some (OffsetNumber 2), user_is_agent = True\<rparr>"

definition job :: work_details where
  "job = \<lparr>wd_rid = ''r1'', wd_userId = ''u1'', wd_from = Some ''omnichannel-transcript''\<rparr>"

definition world_with :: "room \<Rightarrow> world" where
  "world_with r =
     new_service [''r1'' \<mapsto> r] [''u1'' \<mapsto> requester] Map.empty
       [''f1'' \<mapsto> \<lparr>upload_id = ''f1'', upload_name = ''cat.png''\<rparr>]"

definition picture :: attachment where
  "picture =
     \<lparr>att_type = Some ''file'', att_image_type = Some ''image/png'',
      att_title = Some ''cat.png'', att_title_link = Some ''/file-upload/f1/cat.png'',
      att_description = Some ''my cat''\<rparr>"

definition picture_message :: message_doc where
  "picture_message =
     \<lparr>m_id = ''m1'', m_rid = None, m_msg = [], m_u = ''v1'', m_ts = 10, m_md = None,
      m_attachments = Some [picture],
      m_files = Some [\<lparr>fp_id = ''f1'', fp_name = ''cat.png''\<rparr>]\<rparr>"

definition text_message :: message_doc where
  "text_message =
     \<lparr>m_id = ''m2'', m_rid = None, m_msg = ''hello'', m_u = ''a1'', m_ts = 20,
      m_md = None, m_attachments = None, m_files = None\<rparr>"

definition the_stream :: pending_stream where
  "the_stream =
     \<lparr>ps_chunks = [[37, 80], [68, 70]], ps_transcriptText = ''Transcript'',
      ps_data = \<lparr>wk_siteName = ''Site'', wk_visitor = None, wk_agent = Some requester,
                 wk_closedAt = None, wk_messages = [], wk_timezone = ''UTC'',
                 wk_dateFormat = ''LL'', wk_timeAndDateFormat = ''LLL'',
                 wk_translations = []\<rparr>,
      ps_details = job\<rparr>"

definition open_room :: room where
  "open_room = closed_room\<lparr>room_open := True\<rparr>"

definition unserved_room :: room where
  "unserved_room = closed_room\<lparr>room_servedBy := None\<rparr>"

definition pending_room :: room where
  "pending_room = closed_room\<lparr>pdfTranscriptRequested := True\<rparr>"

definition full_service :: world where
  "full_service = (world_with closed_room)\<lparr>currentJobNumber := 25\<rparr>"

definition other_job :: work_details where
  "other_job = \<lparr>wd_rid = ''r9'', wd_userId = ''u1'', wd_from = None\<rparr>"

text \<open>Collaborators of which one fails.\<close>

definition env_buffer_fails :: env where
  "env_buffer_fails =
     env_ok\<lparr>getFileBuffer := (\<lambda>_ _. Inl (Error ''ENOENT'')),
            findLivechatMessagesWithoutClosing := (\<lambda>_. Inr [picture_message])\<rparr>"

definition env_store_fails :: env where
  "env_store_fails =
     env_ok\<lparr>findLivechatMessagesWithoutClosing := (\<lambda>_. Inl (Error ''store down''))\<rparr>"

definition env_send_fails :: env where
  "env_send_fails = env_store_fails\<lparr>sendMessage := (\<lambda>_ _ _. Some (Error ''send failed''))\<rparr>"

definition world_without_requester :: world where
  "world_without_requester = (world_with pending_room)\<lparr>users := Map.empty\<rparr>"

text \<open>Attachments that cannot be resolved, each for another reason.\<close>

definition program :: attachment where
  "program = picture\<lparr>att_image_type := Some ''application/x-msdownload''\<rparr>"

definition pasted :: attachment where
  "pasted = picture\<lparr>att_title := Some ''Clipboard'', att_title_link := None\<rparr>"

definition vanished :: attachment where
  "vanished = picture\<lparr>att_title := Some ''old.png'',
                      att_title_link := Some ''/file-upload/f7/old.png''\<rparr>"

definition broken_message :: message_doc where
  "broken_message = picture_message\<lparr>m_attachments := Some [program, pasted, vanished]\<rparr>"

definition env_upload_fails :: env where
  "env_upload_fails = env_ok\<lparr>uploadFile := (\<lambda>_ _ _ _. Inl (Error ''disk full''))\<rparr>"

definition resolved_messages :: "message_with_files list" where
  "resolved_messages =
     [\<lparr>mf_id = ''m1'', mf_ts = 10, mf_u = ''v1'', mf_msg = ''my cat'', mf_md = None,
       mf_files = [\<lparr>fe_name = Some ''cat.png'', fe_buffer = Some [137, 80, 78, 71]\<rparr>]\<rparr>,
      \<lparr>mf_id = ''m2'', mf_ts = 20, mf_u = ''a1'', mf_msg = ''hello'', mf_md = None,
       mf_files = []\<rparr>]"

definition transcript_pdf :: upload where
  "transcript_pdf =
     \<lparr>upload_id = ''pdf1'', upload_name = ''Transcript_Site_11/2/2026_Visitor.pdf''\<rparr>"

section \<open>Properties\<close>

subsection \<open>Promises\<close>

lemma promise_all_Inr: "promise_all r rs = Inr xs \<longleftrightarrow> rejected rs = [] \<and> xs = map projr rs"
  by (auto simp: promise_all_def Let_def split: list.splits)

lemma rejected_Nil: "rejected rs = [] \<longleftrightarrow> (\<forall>x \<in> set rs. \<not> isl x)"
proof
  assume "rejected rs = []"
  then show "\<forall>x \<in> set rs. \<not> isl x"
    by (auto simp: rejected_def filter_empty_conv in_set_conv_nth)
next
  assume "\<forall>x \<in> set rs. \<not> isl x"
  then have "\<And>i. i < length rs \<Longrightarrow> \<not> isl (rs ! i)"
    using nth_mem by blast
  then show "rejected rs = []"
    by (simp add: rejected_def filter_empty_conv)
qed

lemma promise_all_Inl: "promise_all r rs = Inl e \<Longrightarrow> \<exists>x \<in> set rs. isl x"
  using promise_all_Inr[of r rs "map projr rs"] rejected_Nil[of rs] by auto

lemma map_filter_map: "List.map_filter (\<lambda>f. f) (map g xs) = List.map_filter g xs"
  by (induction xs) (simp_all add: List.map_filter_simps split: option.split)

subsection \<open>What each step leaves alone\<close>

lemma getFiles_frame:
  assumes "getFiles env uid ms w = (r, w')"
  shows "rooms w' = rooms w \<and> users w' = users w \<and> visitors w' = visitors w \<and>
         uploads w' = uploads w \<and> queue w' = queue w \<and> writes w' = writes w \<and>
         sent w' = sent w \<and> streams w' = streams w \<and>
         maxNumberOfConcurrentJobs w' = maxNumberOfConcurrentJobs w \<and>
         currentJobNumber w' = currentJobNumber w \<and>
         counter_writes w' = counter_writes w"
  using assms by (auto simp: getFiles_def Let_def)

lemma doRender_frame:
  assumes "doRender env t data d w = (r, w')"
  shows "rooms w' = rooms w \<and> users w' = users w \<and> visitors w' = visitors w \<and>
         uploads w' = uploads w \<and> queue w' = queue w \<and> writes w' = writes w \<and>
         sent w' = sent w \<and> log w' = log w \<and>
         maxNumberOfConcurrentJobs w' = maxNumberOfConcurrentJobs w \<and>
         currentJobNumber w' = currentJobNumber w \<and>
         counter_writes w' = counter_writes w"
  using assms by (auto simp: doRender_def split: sum.splits)

lemma workOnPdf_try_frame:
  assumes "workOnPdf_try env t d w = (r, w')"
  shows "rooms w' = rooms w \<and> users w' = users w \<and> visitors w' = visitors w \<and>
         uploads w' = uploads w \<and> queue w' = queue w \<and> writes w' = writes w \<and>
         sent w' = sent w \<and>
         maxNumberOfConcurrentJobs w' = maxNumberOfConcurrentJobs w \<and>
         currentJobNumber w' = currentJobNumber w \<and>
         counter_writes w' = counter_writes w"
  using assms
  by (auto simp: workOnPdf_try_def Let_def split: option.splits sum.splits prod.splits
           dest!: getFiles_frame doRender_frame)

lemma pdfFailed_counter:
  assumes "pdfFailed env d e w = (r, w')"
  shows "maxNumberOfConcurrentJobs w' = maxNumberOfConcurrentJobs w \<and>
         currentJobNumber w' = currentJobNumber w \<and> queue w' = queue w \<and>
         users w' = users w \<and> streams w' = streams w \<and>
         counter_writes w' = counter_writes w"
  using assms
  by (auto simp: pdfFailed_def Let_def add_log_def add_sent_def
        unsetTranscriptRequestedPdfById_def update_room_def
        split: option.splits sum.splits)

lemma workOnPdf_try_counter:
  "currentJobNumber (snd (workOnPdf_try env t d w)) = currentJobNumber w"
  using workOnPdf_try_frame[of env t d w] by (cases "workOnPdf_try env t d w") auto

lemma workOnPdf_catch_counter:
  "currentJobNumber (snd (workOnPdf_catch env d rw)) = currentJobNumber (snd rw)"
proof (cases rw)
  case (Pair r w)
  show ?thesis
  proof (cases r)
    case (Inl e)
    with Pair pdfFailed_counter[of env d e w "fst (pdfFailed env d e w)" "snd (pdfFailed env d e w)"]
    show ?thesis by (simp add: workOnPdf_catch_def)
  next
    case (Inr u)
    with Pair show ?thesis by (simp add: workOnPdf_catch_def)
  qed
qed

lemma workOnPdf_try_writes:
  "counter_writes (snd (workOnPdf_try env t d w)) = counter_writes w"
  using workOnPdf_try_frame[of env t d w] by (cases "workOnPdf_try env t d w") auto

lemma workOnPdf_catch_writes:
  "counter_writes (snd (workOnPdf_catch env d rw)) = counter_writes (snd rw)"
proof (cases rw)
  case (Pair r w)
  show ?thesis
  proof (cases r)
    case (Inl e)
    with Pair pdfFailed_counter[of env d e w "fst (pdfFailed env d e w)" "snd (pdfFailed env d e w)"]
    show ?thesis by (simp add: workOnPdf_catch_def)
  next
    case (Inr u)
    with Pair show ?thesis by (simp add: workOnPdf_catch_def)
  qed
qed

lemma workOnPdf_admitted:
  assumes "currentJobNumber w < maxNumberOfConcurrentJobs w"
  shows "workOnPdf env t d w =
           workOnPdf_finally
             (workOnPdf_catch env d (workOnPdf_try env t d (workOnPdf_enter d w)))"
  using assms by (simp add: workOnPdf_def)

lemma workOnPdf_failed:
  assumes "currentJobNumber w < maxNumberOfConcurrentJobs w"
    and "workOnPdf_try env t d (workOnPdf_enter d w) = (Inl e, w')"
  shows "workOnPdf env t d w = workOnPdf_finally (pdfFailed env d e w')"
  using assms by (simp add: workOnPdf_admitted workOnPdf_catch_def)

lemma stream_on_end_failed:
  assumes "uploadFile env (wd_userId (ps_details p)) (concat (ps_chunks p))
             (transcript_file_name env p) (wd_rid (ps_details p)) = Inl e"
  shows "stream_on_end env p w = pdfFailed env (ps_details p) e w"
  using assms by (simp add: stream_on_end_def Let_def)

subsection \<open>File resolution\<close>

lemma getFiles_Inr:
  "fst (getFiles env uid ms w) = Inr out \<longleftrightarrow>
     (\<forall>m \<in> set ms. \<not> isl (snd (resolveMessage env w uid m))) \<and>
     out = map (\<lambda>m. projr (snd (resolveMessage env w uid m))) ms"
  by (auto simp: getFiles_def Let_def promise_all_Inr rejected_Nil)

lemma resolveMessage_plain:
  assumes "attachments_of m = []"
  shows "resolveMessage env w uid m =
           ([], Inr \<lparr>mf_id = m_id m, mf_ts = m_ts m, mf_u = m_u m, mf_msg = m_msg m,
                     mf_md = m_md m, mf_files = []\<rparr>)"
  using assms by (auto simp: resolveMessage_def attachments_of_def split: option.splits)

lemma resolveMessage_Inr:
  assumes "attachments_of m \<noteq> []"
  shows "snd (resolveMessage env w uid m) = Inr x \<longleftrightarrow>
     (\<forall>a \<in> set (attachments_of m). \<not> isl (snd (resolveAttachment env w uid m a))) \<and>
     x = \<lparr>mf_id = m_id m, mf_ts = m_ts m, mf_u = m_u m,
          mf_msg = message_text m (attachments_of m), mf_md = None,
          mf_files = List.map_filter (\<lambda>f. f)
            (map (\<lambda>a. projr (snd (resolveAttachment env w uid m a))) (attachments_of m))\<rparr>"
proof -
  from assms obtain as where as: "m_attachments m = Some as" "as \<noteq> []"
    by (auto simp: attachments_of_def split: option.splits)
  let ?rs = "map (\<lambda>a. snd (resolveAttachment env w uid m a)) as"
  have *: "snd (resolveMessage env w uid m) =
      (case promise_all (race env) ?rs of
         Inl e \<Rightarrow> Inl e
       | Inr files \<Rightarrow>
           Inr \<lparr>mf_id = m_id m, mf_ts = m_ts m, mf_u = m_u m,
                mf_msg = message_text m as, mf_md = None,
                mf_files = List.map_filter (\<lambda>f. f) files\<rparr>)"
    using as by (simp add: resolveMessage_def Let_def o_def)
  show ?thesis
  proof (cases "promise_all (race env) ?rs")
    case (Inl e)
    from promise_all_Inl[OF Inl] show ?thesis
      using as by (auto simp: * Inl attachments_of_def)
  next
    case (Inr files)
    then have "rejected ?rs = []" and "files = map projr ?rs"
      by (simp_all add: promise_all_Inr)
    then show ?thesis
      using as by (auto simp: * Inr attachments_of_def rejected_Nil o_def)
  qed
qed

lemma resolveAttachment_race:
  "resolveAttachment (env\<lparr>race := r\<rparr>) w uid m a = resolveAttachment env w uid m a"
  by (simp add: resolveAttachment_def Let_def split: option.split sum.split)

lemma resolveMessage_fields:
  assumes "snd (resolveMessage env w uid m) = Inr x"
  shows "mf_id x = m_id m \<and> mf_ts x = m_ts m \<and> mf_u x = m_u m"
proof (cases "attachments_of m = []")
  case True
  with assms show ?thesis by (auto simp: resolveMessage_plain)
next
  case False
  with assms show ?thesis by (auto simp: resolveMessage_Inr)
qed

lemma resolveMessage_race:
  assumes "snd (resolveMessage env w uid m) = Inr x"
  shows "snd (resolveMessage (env\<lparr>race := r\<rparr>) w uid m) = Inr x"
proof (cases "attachments_of m = []")
  case True
  with assms show ?thesis by (auto simp: resolveMessage_plain)
next
  case False
  with assms show ?thesis by (simp add: resolveMessage_Inr resolveAttachment_race)
qed

lemma find_descriptions:
  "(case find (\<lambda>a. truthy (att_description a)) as of
      None \<Rightarrow> []
    | Some a \<Rightarrow> (if truthy (att_description a) then the (att_description a) else []))
   = (case filter (\<lambda>d. d \<noteq> []) (List.map_filter att_description as) of
        [] \<Rightarrow> [] | d # _ \<Rightarrow> d)"
  by (induction as) (auto simp: truthy_def List.map_filter_simps split: option.splits)

lemma message_text_expected:
  "message_text m (attachments_of m) = expected_text m"
  by (simp add: message_text_def expected_text_def descriptions_def find_descriptions)

lemma resolveAttachment_ok:
  assumes "\<not> buffer_fetch_fails env w uid m a"
  shows "\<not> isl (snd (resolveAttachment env w uid m a))"
  using assms
  by (auto simp: resolveAttachment_def buffer_fetch_fails_def Let_def
        split: option.splits sum.splits)

subsection \<open>Failure and completion\<close>

lemma pdfFailed_skips:
  assumes "rooms w (wd_rid d) = None \<or> users w (wd_userId d) = None"
  shows "pdfFailed env d e w =
           (Inr (), w\<lparr>log := log w @ [LogError (''Transcript for '' @ job_tag d
                                          @ '' - Failed: '' @ err_message e)]\<rparr>)"
  using assms by (auto simp: pdfFailed_def add_log_def Let_def split: option.splits)

lemma pdfFailed_clears:
  assumes "rooms w (wd_rid d) = Some r" and "users w (wd_userId d) = Some u"
  shows "rooms (snd (pdfFailed env d e w)) = (rooms w)(wd_rid d \<mapsto> r\<lparr>pdfTranscriptRequested := False\<rparr>)"
    and "writes (snd (pdfFailed env d e w)) = writes w @ [UnsetTranscriptRequestedPdf (wd_rid d)]"
  using assms
  by (auto simp: pdfFailed_def add_log_def add_sent_def Let_def
        unsetTranscriptRequestedPdfById_def update_room_def split: option.splits sum.splits)

lemma pdfFailed_sends:
  assumes "rooms w (wd_rid d) = Some r" and "users w (wd_userId d) = Some u"
    and "createDirectMessage env (wd_userId d) ''rocket.cat'' = Inr dm"
    and "translate env ''pdf_error_message'' u = Inr msgtext"
    and "sendMessage env ''rocket.cat'' dm (msgtext @ '': '' @ err_message e) = None"
  shows "fst (pdfFailed env d e w) = Inr ()"
    and "sent (snd (pdfFailed env d e w)) =
           sent w @ [DirectMessage (wd_userId d) ''rocket.cat'' dm,
                     SendMessage ''rocket.cat'' dm (msgtext @ '': '' @ err_message e)]"
  using assms
  by (auto simp: pdfFailed_def add_log_def add_sent_def Let_def
        unsetTranscriptRequestedPdfById_def update_room_def)

lemma pdfComplete_returns: "fst (pdfComplete env d fl w) = Inr ()"
  by (simp add: pdfComplete_def Let_def split: option.split sum.split prod.split)

lemma pdfComplete_try_store:
  assumes "rooms w (wd_rid d) = Some r"
  shows "rooms (snd (pdfComplete_try env d fl u w))
           = (rooms w)(wd_rid d \<mapsto> r\<lparr>pdfTranscriptFileId := Some (upload_id fl)\<rparr>) \<and>
         writes (snd (pdfComplete_try env d fl u w))
           = writes w @ [SetPdfTranscriptFileId (wd_rid d) (upload_id fl)]"
  using assms
  by (simp add: pdfComplete_try_def send_file_def add_log_def add_sent_def Let_def
        setPdfTranscriptFileIdById_def update_room_def split: sum.split option.split)

lemma pdfComplete_store:
  assumes "rooms w (wd_rid d) = Some r" and "users w (wd_userId d) = Some u"
  shows "rooms (snd (pdfComplete env d fl w))
           = (rooms w)(wd_rid d \<mapsto> r\<lparr>pdfTranscriptFileId := Some (upload_id fl)\<rparr>) \<and>
         writes (snd (pdfComplete env d fl w))
           = writes w @ [SetPdfTranscriptFileId (wd_rid d) (upload_id fl)]"
proof -
  let ?w1 = "add_log (LogInfo (''Transcript for '' @ job_tag d @ '' - Complete'')) w"
  have r1: "rooms ?w1 (wd_rid d) = Some r" using assms by (simp add: add_log_def)
  obtain res w2 where t: "pdfComplete_try env d fl u ?w1 = (res, w2)"
    by (cases "pdfComplete_try env d fl u ?w1")
  from pdfComplete_try_store[OF r1, of env fl u] t
  have w2: "rooms w2 = (rooms w)(wd_rid d \<mapsto> r\<lparr>pdfTranscriptFileId := Some (upload_id fl)\<rparr>)"
       "writes w2 = writes w @ [SetPdfTranscriptFileId (wd_rid d) (upload_id fl)]"
    by (simp_all add: add_log_def)
  show ?thesis
    using assms t w2
    by (cases res) (simp_all add: pdfComplete_def Let_def add_log_def)
qed

text \<open>A call of \<open>requestTranscript\<close> that returns leaves the room closed, served and flagged.\<close>

lemma requestTranscript_marks:
  assumes "fst (requestTranscript d w) = Inr ()"
  shows "\<exists>r. rooms (snd (requestTranscript d w)) (wd_rid d) = Some r \<and>
             pdfTranscriptRequested r \<and> \<not> room_open r \<and>
             room_servedBy r \<noteq> None \<and> room_v r \<noteq> None"
  using assms
  by (auto simp: requestTranscript_def add_log_def Let_def setTranscriptRequestedPdfById_def
        update_room_def split: option.splits if_splits)

section \<open>The claims\<close>

text \<open>
  Claim C1. \<open>requestTranscript\<close> fails with \<^verbatim>\<open>room-not-found\<close> when the room does not
  exist, with \<^verbatim>\<open>room-still-open\<close> when the room is open, and with
  \<^verbatim>\<open>improper-room-state\<close> when the (existing, closed) room has no serving agent or no
  visitor. The three checks are made in this order, so each error is the one of the
  first check that fails. Whenever the call fails, no work item is enqueued and the room
  collection is unchanged: the world differs from the one before the call by the one log
  line written on entry.
\<close>

theorem requestTranscript_rejects:
  "(rooms w (wd_rid d) = None \<longrightarrow>
      fst (requestTranscript d w) = Inl (Error ''room-not-found'')) \<and>
   (\<forall>r. rooms w (wd_rid d) = Some r \<and> room_open r \<longrightarrow>
      fst (requestTranscript d w) = Inl (Error ''room-still-open'')) \<and>
   (\<forall>r. rooms w (wd_rid d) = Some r \<and> \<not> room_open r \<and>
        (room_servedBy r = None \<or> room_v r = None) \<longrightarrow>
      fst (requestTranscript d w) = Inl (Error ''improper-room-state'')) \<and>
   (\<forall>e. fst (requestTranscript d w) = Inl e \<longrightarrow>
      queue (snd (requestTranscript d w)) = queue w \<and>
      rooms (snd (requestTranscript d w)) = rooms w \<and>
      writes (snd (requestTranscript d w)) = writes w \<and>
      snd (requestTranscript d w) =
        w\<lparr>log := log w @ [LogInfo (''Requesting transcript for '' @ job_tag d)]\<rparr>)"
  by (auto simp: requestTranscript_def add_log_def Let_def split: option.splits)

theorem requestTranscript_rejects_witness:
  "rooms (world_with closed_room) (wd_rid other_job) = None \<and>
   fst (requestTranscript other_job (world_with closed_room)) = Inl (Error ''room-not-found'') \<and>
   queue (snd (requestTranscript other_job (world_with closed_room))) = [] \<and>
   rooms (world_with open_room) (wd_rid job) = Some open_room \<and> room_open open_room \<and>
   fst (requestTranscript job (world_with open_room)) = Inl (Error ''room-still-open'') \<and>
   queue (snd (requestTranscript job (world_with open_room))) = [] \<and>
   rooms (snd (requestTranscript job (world_with open_room))) ''r1'' = Some open_room \<and>
   rooms (world_with unserved_room) (wd_rid job) = Some unserved_room \<and>
   \<not> room_open unserved_room \<and> room_servedBy unserved_room = None \<and>
   fst (requestTranscript job (world_with unserved_room)) = Inl (Error ''improper-room-state'') \<and>
   queue (snd (requestTranscript job (world_with unserved_room))) = []"
proof -
  have h1: "rooms (world_with closed_room) (wd_rid other_job) = None"
    by (simp add: world_with_def new_service_def other_job_def)
  have h2: "rooms (world_with open_room) (wd_rid job) = Some open_room \<and> room_open open_room"
    by (simp add: world_with_def new_service_def job_def open_room_def)
  have h3: "rooms (world_with unserved_room) (wd_rid job) = Some unserved_room \<and>
            \<not> room_open unserved_room \<and>
            (room_servedBy unserved_room = None \<or> room_v unserved_room = None)"
    by (simp add: world_with_def new_service_def job_def unserved_room_def closed_room_def)
  have q: "queue (world_with r) = []" for r
    by (simp add: world_with_def new_service_def)
  have r: "rooms (world_with open_room) ''r1'' = Some open_room"
    by (simp add: world_with_def new_service_def)
  from requestTranscript_rejects[of "world_with closed_room" other_job] h1
  have c1: "fst (requestTranscript other_job (world_with closed_room))
              = Inl (Error ''room-not-found'') \<and>
            queue (snd (requestTranscript other_job (world_with closed_room))) = []"
    by (simp add: q)
  from requestTranscript_rejects[of "world_with open_room" job] h2
  have c2: "fst (requestTranscript job (world_with open_room)) = Inl (Error ''room-still-open'') \<and>
            queue (snd (requestTranscript job (world_with open_room))) = [] \<and>
            rooms (snd (requestTranscript job (world_with open_room))) ''r1'' = Some open_room"
    by (simp add: q r)
  from requestTranscript_rejects[of "world_with unserved_room" job] h3
  have c3: "fst (requestTranscript job (world_with unserved_room))
              = Inl (Error ''improper-room-state'') \<and>
            queue (snd (requestTranscript job (world_with unserved_room))) = []"
    by (simp add: q)
  from h1 h2 h3 c1 c2 c3 show ?thesis
    by (simp add: unserved_room_def)
qed

text \<open>
  Claim C2. For a room that is flagged as having a pending transcript request (and that
  passes the three checks that come first, as every room does that \<open>requestTranscript\<close>
  has flagged), \<open>requestTranscript\<close> returns without error and is a no-op: it issues no
  write on the room, so the room is not marked again, and adds no queue entry; it only
  logs two lines. Calling it again on the resulting world returns again and leaves rooms,
  writes and queue as they were before the first call.
\<close>

theorem requestTranscript_pending_noop:
  assumes "rooms w (wd_rid d) = Some r" and "pdfTranscriptRequested r"
    and "\<not> room_open r" and "room_servedBy r \<noteq> None" and "room_v r \<noteq> None"
  shows "requestTranscript d w =
           (Inr (), w\<lparr>log := log w @
              [LogInfo (''Requesting transcript for '' @ job_tag d),
               LogInfo (''Transcript already requested for room '' @ wd_rid d)]\<rparr>) \<and>
         rooms (snd (requestTranscript d w)) = rooms w \<and>
         writes (snd (requestTranscript d w)) = writes w \<and>
         queue (snd (requestTranscript d w)) = queue w \<and>
         fst (requestTranscript d (snd (requestTranscript d w))) = Inr () \<and>
         rooms (snd (requestTranscript d (snd (requestTranscript d w)))) = rooms w \<and>
         writes (snd (requestTranscript d (snd (requestTranscript d w)))) = writes w \<and>
         queue (snd (requestTranscript d (snd (requestTranscript d w)))) = queue w"
  using assms by (auto simp: requestTranscript_def add_log_def Let_def)

theorem requestTranscript_pending_noop_witness:
  "rooms (world_with pending_room) (wd_rid job) = Some pending_room \<and>
   pdfTranscriptRequested pending_room \<and> \<not> room_open pending_room \<and>
   room_servedBy pending_room \<noteq> None \<and> room_v pending_room \<noteq> None \<and>
   fst (requestTranscript job (world_with pending_room)) = Inr () \<and>
   queue (snd (requestTranscript job (world_with pending_room))) = [] \<and>
   writes (snd (requestTranscript job (world_with pending_room))) = [] \<and>
   queue (snd (requestTranscript job (snd (requestTranscript job (world_with pending_room))))) = []"
proof -
  have h: "rooms (world_with pending_room) (wd_rid job) = Some pending_room"
      "pdfTranscriptRequested pending_room" "\<not> room_open pending_room"
      "room_servedBy pending_room \<noteq> None" "room_v pending_room \<noteq> None"
    by (simp_all add: world_with_def new_service_def job_def pending_room_def closed_room_def)
  have q: "queue (world_with pending_room) = []" "writes (world_with pending_room) = []"
    by (simp_all add: world_with_def new_service_def)
  note t = requestTranscript_pending_noop[OF h]
  have c1: "fst (requestTranscript job (world_with pending_room)) = Inr ()"
    using t by simp
  have c2: "queue (snd (requestTranscript job (world_with pending_room))) = []"
      "writes (snd (requestTranscript job (world_with pending_room))) = []"
      "queue (snd (requestTranscript job (snd (requestTranscript job (world_with pending_room))))) = []"
    using t q by metis+
  from h c1 c2 show ?thesis by simp
qed

text \<open>
  Claim C3. When the in-flight job counter is at least the configured maximum (25 in a
  new service object) on entry to \<open>workOnPdf\<close>, the call fails with \<^verbatim>\<open>retry\<close>; it does
  nothing but log two lines, and the counter after the call is the counter before it.
\<close>

theorem workOnPdf_retry:
  assumes "maxNumberOfConcurrentJobs w \<le> currentJobNumber w"
  shows "fst (workOnPdf env t d w) = Inl (Error ''retry'') \<and>
         currentJobNumber (snd (workOnPdf env t d w)) = currentJobNumber w \<and>
         snd (workOnPdf env t d w) =
           w\<lparr>log := log w @
              [LogInfo (''Processing transcript for '' @ job_tag d @ '' - Received from queue''),
               LogError (''Processing transcript for '' @ job_tag d
                         @ '' - Too many concurrent jobs, queuing again'')]\<rparr>"
  using assms by (simp add: workOnPdf_def add_log_def)

theorem workOnPdf_retry_witness:
  "maxNumberOfConcurrentJobs (new_service Map.empty Map.empty Map.empty Map.empty) = 25 \<and>
   maxNumberOfConcurrentJobs full_service \<le> currentJobNumber full_service \<and>
   fst (workOnPdf env_ok ''omnichannel-transcript'' job full_service) = Inl (Error ''retry'') \<and>
   currentJobNumber (snd (workOnPdf env_ok ''omnichannel-transcript'' job full_service)) = 25 \<and>
   streams (snd (workOnPdf env_ok ''omnichannel-transcript'' job full_service)) = [] \<and>
   sent (snd (workOnPdf env_ok ''omnichannel-transcript'' job full_service)) = []"
proof -
  have h: "maxNumberOfConcurrentJobs full_service \<le> currentJobNumber full_service"
    by (simp add: full_service_def world_with_def new_service_def)
  have c: "currentJobNumber full_service = 25" "streams full_service = []"
      "sent full_service = []"
    by (simp_all add: full_service_def world_with_def new_service_def)
  from workOnPdf_retry[OF h, of env_ok "''omnichannel-transcript''" job] h c show ?thesis
    by (simp add: new_service_def)
qed

text \<open>
  Claim C4. An invocation of \<open>workOnPdf\<close> that passes the admission check increments the
  job counter exactly once, on entry, and decrements it exactly once, on exit, on every
  path: the call is the \<^verbatim>\<open>finally\<close> clause applied to the \<^verbatim>\<open>catch\<close> clause applied
  to the \<^verbatim>\<open>try\<close> block run after the entry; the values it assigns to the counter are,
  in order, one above the value before the call and then that value again, and nothing
  else; the counter holds the higher value after the entry, after the \<^verbatim>\<open>try\<close> block
  (whether it completed or threw) and after the \<^verbatim>\<open>catch\<close> clause (whether \<open>pdfFailed\<close>
  returned or threw), and it is back at its value before the call when \<open>workOnPdf\<close>
  exits. A counter that is not negative before the call is never assigned a negative
  value. This is the call taken alone; other jobs in flight are not modelled.
\<close>

theorem workOnPdf_counter_balanced:
  assumes "currentJobNumber w < maxNumberOfConcurrentJobs w"
  shows "workOnPdf env t d w =
           workOnPdf_finally
             (workOnPdf_catch env d (workOnPdf_try env t d (workOnPdf_enter d w))) \<and>
         counter_writes (snd (workOnPdf env t d w))
           = counter_writes w @ [currentJobNumber w + 1, currentJobNumber w] \<and>
         counter_writes (workOnPdf_enter d w) = counter_writes w @ [currentJobNumber w + 1] \<and>
         counter_writes (snd (workOnPdf_try env t d (workOnPdf_enter d w)))
           = counter_writes w @ [currentJobNumber w + 1] \<and>
         counter_writes
           (snd (workOnPdf_catch env d (workOnPdf_try env t d (workOnPdf_enter d w))))
           = counter_writes w @ [currentJobNumber w + 1] \<and>
         currentJobNumber (workOnPdf_enter d w) = currentJobNumber w + 1 \<and>
         currentJobNumber (snd (workOnPdf_try env t d (workOnPdf_enter d w)))
           = currentJobNumber w + 1 \<and>
         currentJobNumber
           (snd (workOnPdf_catch env d (workOnPdf_try env t d (workOnPdf_enter d w))))
           = currentJobNumber w + 1 \<and>
         currentJobNumber (snd (workOnPdf env t d w)) = currentJobNumber w \<and>
         (0 \<le> currentJobNumber w \<longrightarrow>
            0 \<le> currentJobNumber (workOnPdf_enter d w) \<and>
            0 \<le> currentJobNumber (snd (workOnPdf_try env t d (workOnPdf_enter d w))) \<and>
            0 \<le> currentJobNumber
                   (snd (workOnPdf_catch env d (workOnPdf_try env t d (workOnPdf_enter d w)))) \<and>
            0 \<le> currentJobNumber (snd (workOnPdf env t d w)) \<and>
            (\<forall>x \<in> set (drop (length (counter_writes w))
                             (counter_writes (snd (workOnPdf env t d w)))). 0 \<le> x))"
proof -
  let ?w1 = "workOnPdf_enter d w"
  let ?w2 = "snd (workOnPdf_try env t d ?w1)"
  let ?w3 = "snd (workOnPdf_catch env d (workOnPdf_try env t d ?w1))"
  have staged: "workOnPdf env t d w =
      workOnPdf_finally (workOnPdf_catch env d (workOnPdf_try env t d ?w1))"
    using assms by (rule workOnPdf_admitted)
  have entered: "currentJobNumber ?w1 = currentJobNumber w + 1"
      "counter_writes ?w1 = counter_writes w @ [currentJobNumber w + 1]"
    by (simp_all add: workOnPdf_enter_def add_log_def Let_def)
  have tried: "currentJobNumber ?w2 = currentJobNumber w + 1"
      "counter_writes ?w2 = counter_writes w @ [currentJobNumber w + 1]"
    by (simp_all add: workOnPdf_try_counter workOnPdf_try_writes entered)
  have caught: "currentJobNumber ?w3 = currentJobNumber w + 1"
      "counter_writes ?w3 = counter_writes w @ [currentJobNumber w + 1]"
    by (simp_all add: workOnPdf_catch_counter workOnPdf_catch_writes tried)
  have left: "currentJobNumber (snd (workOnPdf env t d w)) = currentJobNumber w"
      "counter_writes (snd (workOnPdf env t d w))
         = counter_writes w @ [currentJobNumber w + 1, currentJobNumber w]"
    by (simp_all add: staged workOnPdf_finally_def caught)
  from staged entered tried caught left show ?thesis by simp
qed

theorem workOnPdf_counter_balanced_witness:
  "currentJobNumber (world_with pending_room) < maxNumberOfConcurrentJobs (world_with pending_room) \<and>
   0 \<le> currentJobNumber (world_with pending_room) \<and>
   counter_writes (world_with pending_room) = [] \<and>
   fst (workOnPdf env_ok ''omnichannel-transcript'' job (world_with pending_room)) = Inr () \<and>
   currentJobNumber (snd (workOnPdf env_ok ''omnichannel-transcript'' job (world_with pending_room))) = 0 \<and>
   counter_writes (snd (workOnPdf env_ok ''omnichannel-transcript'' job (world_with pending_room)))
     = [1, 0] \<and>
   currentJobNumber (snd (workOnPdf env_store_fails ''omnichannel-transcript'' job (world_with pending_room))) = 0 \<and>
   counter_writes (snd (workOnPdf env_store_fails ''omnichannel-transcript'' job
                          (world_with pending_room))) = [1, 0] \<and>
   fst (workOnPdf env_send_fails ''omnichannel-transcript'' job (world_with pending_room))
     = Inl (Error ''send failed'') \<and>
   currentJobNumber (snd (workOnPdf env_send_fails ''omnichannel-transcript'' job (world_with pending_room))) = 0 \<and>
   counter_writes (snd (workOnPdf env_send_fails ''omnichannel-transcript'' job
                          (world_with pending_room))) = [1, 0] \<and>
   currentJobNumber (workOnPdf_enter job (world_with pending_room)) = 1"
proof -
  let ?w = "world_with pending_room"
  let ?t = "''omnichannel-transcript''"
  have h: "currentJobNumber ?w < maxNumberOfConcurrentJobs ?w"
    by (simp add: world_with_def new_service_def)
  have z: "currentJobNumber ?w = 0" "counter_writes ?w = []"
    by (simp_all add: world_with_def new_service_def)
  have r1: "fst (workOnPdf env_ok ?t job ?w) = Inr ()"
    by code_simp
  have r2: "fst (workOnPdf env_send_fails ?t job ?w) = Inl (Error ''send failed'')"
    by code_simp
  note t1 = workOnPdf_counter_balanced[OF h, of env_ok ?t job]
  note t2 = workOnPdf_counter_balanced[OF h, of env_store_fails ?t job]
  note t3 = workOnPdf_counter_balanced[OF h, of env_send_fails ?t job]
  have b1: "currentJobNumber (snd (workOnPdf env_ok ?t job ?w)) = currentJobNumber ?w \<and>
            counter_writes (snd (workOnPdf env_ok ?t job ?w))
              = counter_writes ?w @ [currentJobNumber ?w + 1, currentJobNumber ?w] \<and>
            currentJobNumber (workOnPdf_enter job ?w) = currentJobNumber ?w + 1"
    using t1 by blast
  have b2: "currentJobNumber (snd (workOnPdf env_store_fails ?t job ?w)) = currentJobNumber ?w \<and>
            counter_writes (snd (workOnPdf env_store_fails ?t job ?w))
              = counter_writes ?w @ [currentJobNumber ?w + 1, currentJobNumber ?w]"
    using t2 by blast
  have b3: "currentJobNumber (snd (workOnPdf env_send_fails ?t job ?w)) = currentJobNumber ?w \<and>
            counter_writes (snd (workOnPdf env_send_fails ?t job ?w))
              = counter_writes ?w @ [currentJobNumber ?w + 1, currentJobNumber ?w]"
    using t3 by blast
  have c1: "currentJobNumber (snd (workOnPdf env_ok ?t job ?w)) = 0"
      "counter_writes (snd (workOnPdf env_ok ?t job ?w)) = [1, 0]"
      "currentJobNumber (workOnPdf_enter job ?w) = 1"
    using b1 z by simp_all
  have c2: "currentJobNumber (snd (workOnPdf env_store_fails ?t job ?w)) = 0"
      "counter_writes (snd (workOnPdf env_store_fails ?t job ?w)) = [1, 0]"
    using b2 z by simp_all
  have c3: "currentJobNumber (snd (workOnPdf env_send_fails ?t job ?w)) = 0"
      "counter_writes (snd (workOnPdf env_send_fails ?t job ?w)) = [1, 0]"
    using b3 z by simp_all
  from h z r1 r2 c1 c2 c3 show ?thesis by simp
qed

text \<open>
  Claim C5 fails as stated: when the upload record of a located file exists and
  \<^verbatim>\<open>getFileBuffer\<close> rejects, no placeholder is made; the rejection leaves
  \<open>getFiles\<close> and the job takes the failure path (no stream is registered, the
  requester is told of the error), although the room exists and the admission check
  passed.
\<close>

theorem buffer_failure_aborts_job:
  "uploads (world_with closed_room) ''f1'' = Some \<lparr>upload_id = ''f1'', upload_name = ''cat.png''\<rparr> \<and>
   snd (resolveAttachment env_buffer_fails (world_with closed_room) ''u1'' picture_message picture)
     = Inl (Error ''ENOENT'') \<and>
   fst (getFiles env_buffer_fails ''u1'' [picture_message] (world_with closed_room))
     = Inl (Error ''ENOENT'') \<and>
   rooms (world_with closed_room) ''r1'' = Some closed_room \<and>
   currentJobNumber (world_with closed_room) < maxNumberOfConcurrentJobs (world_with closed_room) \<and>
   streams (snd (workOnPdf env_buffer_fails ''omnichannel-transcript'' job (world_with closed_room))) = [] \<and>
   sent (snd (workOnPdf env_buffer_fails ''omnichannel-transcript'' job (world_with closed_room)))
     = [DirectMessage ''u1'' ''rocket.cat'' ''dm1'',
        SendMessage ''rocket.cat'' ''dm1'' ''pdf_error_message: ENOENT'']"
  by code_simp

text \<open>
  Claim C5, as amended. Each failure the resolution step checks for gives a placeholder
  with a null buffer and does not raise: a file attachment with an invalid mime type
  (named by its title), one whose file is found neither by title nor through
  \<^verbatim>\<open>title_link\<close> (named by its title), and one whose located file has no upload
  record (named by the located file). When no attachment of any message reaches a
  rejecting buffer fetch, \<open>getFiles\<close> returns, and the files of each message with
  attachments are the resolved entries of its attachments in order, placeholders
  included.
\<close>

theorem placeholders_do_not_abort:
  "(att_type a = Some ''file'' \<and> \<not> isMimeTypeValid env (att_image_type a) \<longrightarrow>
      snd (resolveAttachment env w uid m a)
        = Inr (Some \<lparr>fe_name = att_title a, fe_buffer = None\<rparr>)) \<and>
   (att_type a = Some ''file'' \<and> isMimeTypeValid env (att_image_type a) \<and>
    find_by_title m a = None \<and> \<not> truthy (title_link_id a) \<longrightarrow>
      snd (resolveAttachment env w uid m a)
        = Inr (Some \<lparr>fe_name = att_title a, fe_buffer = None\<rparr>)) \<and>
   (\<forall>file. att_type a = Some ''file'' \<and> isMimeTypeValid env (att_image_type a) \<and>
      locate_file m a = Some file \<and> uploads w (fp_id file) = None \<longrightarrow>
      snd (resolveAttachment env w uid m a)
        = Inr (Some \<lparr>fe_name = Some (fp_name file), fe_buffer = None\<rparr>)) \<and>
   ((\<forall>x \<in> set msgs. \<forall>y \<in> set (attachments_of x). \<not> buffer_fetch_fails env w uid x y) \<longrightarrow>
      (\<exists>out. fst (getFiles env uid msgs w) = Inr out \<and>
         (\<forall>i < length msgs. attachments_of (msgs ! i) \<noteq> [] \<longrightarrow>
            mf_files (out ! i) =
              List.map_filter (\<lambda>y. projr (snd (resolveAttachment env w uid (msgs ! i) y)))
                (attachments_of (msgs ! i)))))"
proof (intro conjI impI allI)
  assume "att_type a = Some ''file'' \<and> \<not> isMimeTypeValid env (att_image_type a)"
  then show "snd (resolveAttachment env w uid m a)
        = Inr (Some \<lparr>fe_name = att_title a, fe_buffer = None\<rparr>)"
    by (simp add: resolveAttachment_def Let_def)
next
  assume "att_type a = Some ''file'' \<and> isMimeTypeValid env (att_image_type a) \<and>
    find_by_title m a = None \<and> \<not> truthy (title_link_id a)"
  then show "snd (resolveAttachment env w uid m a)
        = Inr (Some \<lparr>fe_name = att_title a, fe_buffer = None\<rparr>)"
    by (simp add: resolveAttachment_def Let_def locate_file_def)
next
  fix fl
  assume "att_type a = Some ''file'' \<and> isMimeTypeValid env (att_image_type a) \<and>
      locate_file m a = Some fl \<and> uploads w (fp_id fl) = None"
  then show "snd (resolveAttachment env w uid m a)
        = Inr (Some \<lparr>fe_name = Some (fp_name fl), fe_buffer = None\<rparr>)"
    by (simp add: resolveAttachment_def Let_def)
next
  assume ok: "\<forall>x \<in> set msgs. \<forall>y \<in> set (attachments_of x). \<not> buffer_fetch_fails env w uid x y"
  let ?out = "map (\<lambda>m. projr (snd (resolveMessage env w uid m))) msgs"
  have res: "\<exists>x. snd (resolveMessage env w uid m) = Inr x \<and>
      (attachments_of m \<noteq> [] \<longrightarrow> mf_files x =
         List.map_filter (\<lambda>y. projr (snd (resolveAttachment env w uid m y))) (attachments_of m))"
    if "m \<in> set msgs" for m
  proof (cases "attachments_of m = []")
    case True
    then show ?thesis by (simp add: resolveMessage_plain)
  next
    case False
    have "\<forall>y \<in> set (attachments_of m). \<not> isl (snd (resolveAttachment env w uid m y))"
      using ok that resolveAttachment_ok by blast
    with False show ?thesis
      by (simp add: resolveMessage_Inr map_filter_map)
  qed
  have "fst (getFiles env uid msgs w) = Inr ?out"
    using res by (fastforce simp: getFiles_Inr)
  moreover have "\<forall>i < length msgs. attachments_of (msgs ! i) \<noteq> [] \<longrightarrow>
            mf_files (?out ! i) =
              List.map_filter (\<lambda>y. projr (snd (resolveAttachment env w uid (msgs ! i) y)))
                (attachments_of (msgs ! i))"
  proof (intro allI impI)
    fix i assume i: "i < length msgs" and ne: "attachments_of (msgs ! i) \<noteq> []"
    from i have "msgs ! i \<in> set msgs" by simp
    from res[OF this] ne i show "mf_files (?out ! i) =
              List.map_filter (\<lambda>y. projr (snd (resolveAttachment env w uid (msgs ! i) y)))
                (attachments_of (msgs ! i))"
      by auto
  qed
  ultimately show "\<exists>out. fst (getFiles env uid msgs w) = Inr out \<and>
         (\<forall>i < length msgs. attachments_of (msgs ! i) \<noteq> [] \<longrightarrow>
            mf_files (out ! i) =
              List.map_filter (\<lambda>y. projr (snd (resolveAttachment env w uid (msgs ! i) y)))
                (attachments_of (msgs ! i)))"
    by blast
qed

theorem placeholders_do_not_abort_witness:
  "att_type program = Some ''file'' \<and> \<not> isMimeTypeValid env_ok (att_image_type program) \<and>
   snd (resolveAttachment env_ok (world_with closed_room) ''u1'' broken_message program)
     = Inr (Some \<lparr>fe_name = Some ''cat.png'', fe_buffer = None\<rparr>) \<and>
   isMimeTypeValid env_ok (att_image_type pasted) \<and>
   find_by_title broken_message pasted = None \<and> \<not> truthy (title_link_id pasted) \<and>
   snd (resolveAttachment env_ok (world_with closed_room) ''u1'' broken_message pasted)
     = Inr (Some \<lparr>fe_name = Some ''Clipboard'', fe_buffer = None\<rparr>) \<and>
   locate_file broken_message vanished = Some \<lparr>fp_id = ''f7'', fp_name = ''old.png''\<rparr> \<and>
   uploads (world_with closed_room) ''f7'' = None \<and>
   snd (resolveAttachment env_ok (world_with closed_room) ''u1'' broken_message vanished)
     = Inr (Some \<lparr>fe_name = Some ''old.png'', fe_buffer = None\<rparr>) \<and>
   attachments_of broken_message = [program, pasted, vanished] \<and>
   attachments_of text_message = [] \<and>
   \<not> buffer_fetch_fails env_ok (world_with closed_room) ''u1'' broken_message program \<and>
   \<not> buffer_fetch_fails env_ok (world_with closed_room) ''u1'' broken_message pasted \<and>
   \<not> buffer_fetch_fails env_ok (world_with closed_room) ''u1'' broken_message vanished \<and>
   (\<exists>out. fst (getFiles env_ok ''u1'' [broken_message, text_message] (world_with closed_room))
            = Inr out \<and>
          mf_files (out ! 0) =
            [\<lparr>fe_name = Some ''cat.png'', fe_buffer = None\<rparr>,
             \<lparr>fe_name = Some ''Clipboard'', fe_buffer = None\<rparr>,
             \<lparr>fe_name = Some ''old.png'', fe_buffer = None\<rparr>])"
proof -
  let ?w = "world_with closed_room"
  let ?ms = "[broken_message, text_message]"
  have h1: "att_type program = Some ''file'' \<and> \<not> isMimeTypeValid env_ok (att_image_type program)"
    by code_simp
  have h2: "att_type pasted = Some ''file'' \<and> isMimeTypeValid env_ok (att_image_type pasted) \<and>
            find_by_title broken_message pasted = None \<and> \<not> truthy (title_link_id pasted)"
    by code_simp
  have h3: "att_type vanished = Some ''file'' \<and> isMimeTypeValid env_ok (att_image_type vanished) \<and>
            locate_file broken_message vanished = Some \<lparr>fp_id = ''f7'', fp_name = ''old.png''\<rparr> \<and>
            uploads ?w (fp_id \<lparr>fp_id = ''f7'', fp_name = ''old.png''\<rparr>) = None"
    by code_simp
  have as: "attachments_of broken_message = [program, pasted, vanished]"
      "attachments_of text_message = []"
    by code_simp+
  have nf: "\<not> buffer_fetch_fails env_ok ?w ''u1'' broken_message program"
      "\<not> buffer_fetch_fails env_ok ?w ''u1'' broken_message pasted"
      "\<not> buffer_fetch_fails env_ok ?w ''u1'' broken_message vanished"
    by code_simp+
  have h4: "\<forall>x \<in> set ?ms. \<forall>y \<in> set (attachments_of x).
              \<not> buffer_fetch_fails env_ok ?w ''u1'' x y"
    using as nf by simp
  have titles: "att_title program = Some ''cat.png''" "att_title pasted = Some ''Clipboard''"
    by code_simp+
  have atts: "attachments_of (?ms ! 0) = [program, pasted, vanished]" "0 < length ?ms"
    by (simp_all add: attachments_of_def broken_message_def)
  note t1 = placeholders_do_not_abort[of program env_ok ?w "''u1''" broken_message ?ms]
  note t2 = placeholders_do_not_abort[of pasted env_ok ?w "''u1''" broken_message ?ms]
  note t3 = placeholders_do_not_abort[of vanished env_ok ?w "''u1''" broken_message ?ms]
  have c1: "snd (resolveAttachment env_ok ?w ''u1'' broken_message program)
              = Inr (Some \<lparr>fe_name = Some ''cat.png'', fe_buffer = None\<rparr>)"
    using t1 h1 titles by metis
  have c2: "snd (resolveAttachment env_ok ?w ''u1'' broken_message pasted)
              = Inr (Some \<lparr>fe_name = Some ''Clipboard'', fe_buffer = None\<rparr>)"
    using t2 h2 titles by metis
  have c3: "snd (resolveAttachment env_ok ?w ''u1'' broken_message vanished)
              = Inr (Some \<lparr>fe_name = Some ''old.png'', fe_buffer = None\<rparr>)"
    using t3 h3 by (metis file_prop.select_convs(2))
  from t1 h4 obtain out where
    out: "fst (getFiles env_ok ''u1'' ?ms ?w) = Inr out"
      "\<forall>i < length ?ms. attachments_of (?ms ! i) \<noteq> [] \<longrightarrow>
         mf_files (out ! i) =
           List.map_filter (\<lambda>y. projr (snd (resolveAttachment env_ok ?w ''u1'' (?ms ! i) y)))
             (attachments_of (?ms ! i))"
    by blast
  from out(2) atts have "mf_files (out ! 0) =
      List.map_filter (\<lambda>y. projr (snd (resolveAttachment env_ok ?w ''u1'' broken_message y)))
        [program, pasted, vanished]"
    by simp
  then have files: "mf_files (out ! 0) =
            [\<lparr>fe_name = Some ''cat.png'', fe_buffer = None\<rparr>,
             \<lparr>fe_name = Some ''Clipboard'', fe_buffer = None\<rparr>,
             \<lparr>fe_name = Some ''old.png'', fe_buffer = None\<rparr>]"
    by (simp add: c1 c2 c3 List.map_filter_simps)
  from out(1) files have ex: "\<exists>out. fst (getFiles env_ok ''u1'' ?ms ?w) = Inr out \<and>
          mf_files (out ! 0) =
            [\<lparr>fe_name = Some ''cat.png'', fe_buffer = None\<rparr>,
             \<lparr>fe_name = Some ''Clipboard'', fe_buffer = None\<rparr>,
             \<lparr>fe_name = Some ''old.png'', fe_buffer = None\<rparr>]"
    by blast
  from h1 h2 h3 as nf c1 c2 c3 ex show ?thesis by simp
qed

text \<open>
  Claim C6. File resolution preserves order: when \<open>getFiles\<close> returns, its result has
  one entry for each message, the entry at each position is the resolution of the
  message at that position (same id, same timestamp), so a list sorted by timestamp
  stays sorted; and the result is the same for every completion order of the concurrent
  lookups, that is, for every \<open>race\<close>.
\<close>

theorem getFiles_preserves_order:
  assumes "fst (getFiles env uid msgs w) = Inr out"
  shows "length out = length msgs \<and>
         map mf_id out = map m_id msgs \<and>
         map mf_ts out = map m_ts msgs \<and>
         (sorted (map m_ts msgs) \<longrightarrow> sorted (map mf_ts out)) \<and>
         (\<forall>i < length msgs. snd (resolveMessage env w uid (msgs ! i)) = Inr (out ! i)) \<and>
         (\<forall>r. fst (getFiles (env\<lparr>race := r\<rparr>) uid msgs w) = Inr out)"
proof -
  from assms have all: "\<forall>m \<in> set msgs. \<not> isl (snd (resolveMessage env w uid m))"
    and out: "out = map (\<lambda>m. projr (snd (resolveMessage env w uid m))) msgs"
    by (simp_all add: getFiles_Inr)
  have each: "snd (resolveMessage env w uid m) = Inr (projr (snd (resolveMessage env w uid m)))"
    if "m \<in> set msgs" for m
    using all that by (cases "snd (resolveMessage env w uid m)") auto
  have len: "length out = length msgs" by (simp add: out)
  have ids: "map mf_id out = map m_id msgs"
    using each by (auto simp: out dest!: resolveMessage_fields)
  have tss: "map mf_ts out = map m_ts msgs"
    using each by (auto simp: out dest!: resolveMessage_fields)
  have nth: "\<forall>i < length msgs. snd (resolveMessage env w uid (msgs ! i)) = Inr (out ! i)"
    using each by (simp add: out)
  have "fst (getFiles (env\<lparr>race := r\<rparr>) uid msgs w) = Inr out" for r
  proof -
    have "snd (resolveMessage (env\<lparr>race := r\<rparr>) w uid m)
            = Inr (projr (snd (resolveMessage env w uid m)))" if "m \<in> set msgs" for m
      using each[OF that] by (rule resolveMessage_race)
    then show ?thesis by (auto simp: getFiles_Inr out)
  qed
  with len ids tss nth show ?thesis by simp
qed

theorem getFiles_preserves_order_witness:
  "fst (getFiles env_ok ''u1'' [picture_message, text_message] (world_with closed_room))
     = Inr resolved_messages \<and>
   sorted (map m_ts [picture_message, text_message]) \<and>
   map mf_id resolved_messages = [''m1'', ''m2''] \<and>
   map m_id [picture_message, text_message] = [''m1'', ''m2''] \<and>
   sorted (map mf_ts resolved_messages) \<and>
   fst (getFiles (env_ok\<lparr>race := last\<rparr>) ''u1'' [picture_message, text_message]
          (world_with closed_room)) = Inr resolved_messages"
proof -
  have h: "fst (getFiles env_ok ''u1'' [picture_message, text_message] (world_with closed_room))
             = Inr resolved_messages"
    by code_simp
  have s: "sorted (map m_ts [picture_message, text_message])"
    by (simp add: picture_message_def text_message_def)
  have ids: "map m_id [picture_message, text_message] = [''m1'', ''m2'']"
    by (simp add: picture_message_def text_message_def)
  note t = getFiles_preserves_order[OF h]
  have c1: "map mf_id resolved_messages = [''m1'', ''m2'']"
    using t ids by metis
  have c2: "sorted (map mf_ts resolved_messages)"
    using t s by metis
  have c3: "fst (getFiles (env_ok\<lparr>race := last\<rparr>) ''u1'' [picture_message, text_message]
          (world_with closed_room)) = Inr resolved_messages"
    using t by metis
  from h s ids c1 c2 c3 show ?thesis by simp
qed

text \<open>
  Claim C7. When \<open>getFiles\<close> returns, the text of each resolved message is the body of
  the original message when that is not empty, otherwise the description of the first
  attachment that has one (a non-empty one), otherwise the empty string; a message
  without attachments keeps its body, which is the empty string when it is empty.
\<close>

theorem getFiles_message_text:
  assumes "fst (getFiles env uid msgs w) = Inr out" and "i < length msgs"
  shows "mf_msg (out ! i) = expected_text (msgs ! i)"
proof -
  let ?m = "msgs ! i"
  from assms have r: "snd (resolveMessage env w uid ?m) = Inr (out ! i)"
    by (auto simp: getFiles_Inr)
  show ?thesis
  proof (cases "attachments_of ?m = []")
    case True
    with r have "out ! i = \<lparr>mf_id = m_id ?m, mf_ts = m_ts ?m, mf_u = m_u ?m,
        mf_msg = m_msg ?m, mf_md = m_md ?m, mf_files = []\<rparr>"
      by (simp add: resolveMessage_plain)
    then have "mf_msg (out ! i) = m_msg ?m" by simp
    with True show ?thesis by (simp add: expected_text_def descriptions_def List.map_filter_simps)
  next
    case False
    with r have "mf_msg (out ! i) = message_text ?m (attachments_of ?m)"
      by (simp add: resolveMessage_Inr)
    then show ?thesis by (simp add: message_text_expected)
  qed
qed

theorem getFiles_message_text_witness:
  "fst (getFiles env_ok ''u1'' [picture_message, text_message] (world_with closed_room))
     = Inr resolved_messages \<and>
   m_msg picture_message = [] \<and> expected_text picture_message = ''my cat'' \<and>
   mf_msg (resolved_messages ! 0) = ''my cat'' \<and>
   m_attachments text_message = None \<and> expected_text text_message = ''hello'' \<and>
   mf_msg (resolved_messages ! 1) = ''hello''"
proof -
  have h: "fst (getFiles env_ok ''u1'' [picture_message, text_message] (world_with closed_room))
             = Inr resolved_messages"
    by code_simp
  have e: "m_msg picture_message = []" "expected_text picture_message = ''my cat''"
      "m_attachments text_message = None" "expected_text text_message = ''hello''"
    by code_simp+
  from getFiles_message_text[OF h, of 0] e
  have c0: "mf_msg (resolved_messages ! 0) = ''my cat''" by simp
  from getFiles_message_text[OF h, of 1] e
  have c1: "mf_msg (resolved_messages ! 1) = ''hello''" by simp
  from h e c0 c1 show ?thesis by simp
qed

text \<open>
  Claim C8. When a job fails for good with error \<open>e\<close> and \<open>pdfFailed\<close> runs in world
  \<open>w\<close>: if the room and the requesting user exist, the room's pending-transcript flag is
  cleared, and, the messaging and translation services answering, a direct conversation
  with the requester is opened and the error message translated for that user, followed
  by the raw text of \<open>e\<close>, is sent there; if the room or the user is gone, nothing
  happens beyond the log line that records the failure. The failure path is entered from
  the \<^verbatim>\<open>catch\<close> clause of \<open>workOnPdf\<close>, where the counter, one above its value before
  the call during \<open>pdfFailed\<close>, is back at that value on exit, and from the rejected
  upload after the stream has ended, which does not touch the counter.
\<close>

theorem terminal_failure_notifies:
  "(\<forall>r u. rooms w (wd_rid d) = Some r \<and> users w (wd_userId d) = Some u \<longrightarrow>
      rooms (snd (pdfFailed env d e w)) (wd_rid d)
        = Some (r\<lparr>pdfTranscriptRequested := False\<rparr>) \<and>
      (\<forall>dm msgtext. createDirectMessage env (wd_userId d) ''rocket.cat'' = Inr dm \<and>
          translate env ''pdf_error_message'' u = Inr msgtext \<and>
          sendMessage env ''rocket.cat'' dm (msgtext @ '': '' @ err_message e) = None \<longrightarrow>
          fst (pdfFailed env d e w) = Inr () \<and>
          sent (snd (pdfFailed env d e w)) =
            sent w @ [DirectMessage (wd_userId d) ''rocket.cat'' dm,
                      SendMessage ''rocket.cat'' dm (msgtext @ '': '' @ err_message e)])) \<and>
   (rooms w (wd_rid d) = None \<or> users w (wd_userId d) = None \<longrightarrow>
      pdfFailed env d e w =
        (Inr (), w\<lparr>log := log w @ [LogError (''Transcript for '' @ job_tag d
                                       @ '' - Failed: '' @ err_message e)]\<rparr>)) \<and>
   (\<forall>t w0. currentJobNumber w0 < maxNumberOfConcurrentJobs w0 \<and>
       workOnPdf_try env t d (workOnPdf_enter d w0) = (Inl e, w) \<longrightarrow>
       fst (workOnPdf env t d w0) = fst (pdfFailed env d e w) \<and>
       snd (workOnPdf env t d w0) =
         (snd (pdfFailed env d e w))
           \<lparr>currentJobNumber := currentJobNumber w0,
            counter_writes := counter_writes w @ [currentJobNumber w0]\<rparr> \<and>
       currentJobNumber w = currentJobNumber w0 + 1 \<and>
       currentJobNumber (snd (pdfFailed env d e w)) = currentJobNumber w0 + 1) \<and>
   (\<forall>p. ps_details p = d \<and>
       uploadFile env (wd_userId d) (concat (ps_chunks p)) (transcript_file_name env p)
         (wd_rid d) = Inl e \<longrightarrow>
       stream_on_end env p w = pdfFailed env d e w \<and>
       currentJobNumber (snd (stream_on_end env p w)) = currentJobNumber w)"
proof (intro conjI allI impI)
  fix r u
  assume a: "rooms w (wd_rid d) = Some r \<and> users w (wd_userId d) = Some u"
  then show "rooms (snd (pdfFailed env d e w)) (wd_rid d)
        = Some (r\<lparr>pdfTranscriptRequested := False\<rparr>)"
    by (simp add: pdfFailed_clears)
  fix dm msgtext
  assume b: "createDirectMessage env (wd_userId d) ''rocket.cat'' = Inr dm \<and>
          translate env ''pdf_error_message'' u = Inr msgtext \<and>
          sendMessage env ''rocket.cat'' dm (msgtext @ '': '' @ err_message e) = None"
  from a b show "fst (pdfFailed env d e w) = Inr ()"
    by (simp add: pdfFailed_sends)
  from a b show "sent (snd (pdfFailed env d e w)) =
            sent w @ [DirectMessage (wd_userId d) ''rocket.cat'' dm,
                      SendMessage ''rocket.cat'' dm (msgtext @ '': '' @ err_message e)]"
    by (simp add: pdfFailed_sends[of w d r u env dm msgtext e])
next
  assume "rooms w (wd_rid d) = None \<or> users w (wd_userId d) = None"
  then show "pdfFailed env d e w =
        (Inr (), w\<lparr>log := log w @ [LogError (''Transcript for '' @ job_tag d
                                       @ '' - Failed: '' @ err_message e)]\<rparr>)"
    by (rule pdfFailed_skips)
next
  fix t w0
  assume a: "currentJobNumber w0 < maxNumberOfConcurrentJobs w0 \<and>
       workOnPdf_try env t d (workOnPdf_enter d w0) = (Inl e, w)"
  then have eq: "workOnPdf env t d w0 = workOnPdf_finally (pdfFailed env d e w)"
    by (simp add: workOnPdf_failed)
  have c1: "currentJobNumber w = currentJobNumber w0 + 1"
    using a workOnPdf_try_counter[of env t d "workOnPdf_enter d w0"]
    by (simp add: workOnPdf_enter_def add_log_def Let_def)
  have c2: "currentJobNumber (snd (pdfFailed env d e w)) = currentJobNumber w"
    using pdfFailed_counter[of env d e w "fst (pdfFailed env d e w)" "snd (pdfFailed env d e w)"]
    by simp
  show "fst (workOnPdf env t d w0) = fst (pdfFailed env d e w)"
    by (simp add: eq workOnPdf_finally_def)
  have c3: "counter_writes (snd (pdfFailed env d e w)) = counter_writes w"
    using pdfFailed_counter[of env d e w "fst (pdfFailed env d e w)" "snd (pdfFailed env d e w)"]
    by simp
  show "snd (workOnPdf env t d w0) =
         (snd (pdfFailed env d e w))
           \<lparr>currentJobNumber := currentJobNumber w0,
            counter_writes := counter_writes w @ [currentJobNumber w0]\<rparr>"
    by (simp add: eq workOnPdf_finally_def c1 c2 c3)
  show "currentJobNumber w = currentJobNumber w0 + 1" by (rule c1)
  show "currentJobNumber (snd (pdfFailed env d e w)) = currentJobNumber w0 + 1"
    by (simp add: c1 c2)
next
  fix p
  assume a: "ps_details p = d \<and>
       uploadFile env (wd_userId d) (concat (ps_chunks p)) (transcript_file_name env p)
         (wd_rid d) = Inl e"
  then show eq: "stream_on_end env p w = pdfFailed env d e w"
    using stream_on_end_failed[of env p e w] by auto
  show "currentJobNumber (snd (stream_on_end env p w)) = currentJobNumber w"
    using pdfFailed_counter[of env d e w "fst (pdfFailed env d e w)" "snd (pdfFailed env d e w)"]
    by (simp add: eq)
qed

theorem terminal_failure_notifies_witness:
  "rooms (world_with pending_room) (wd_rid job) = Some pending_room \<and>
   users (world_with pending_room) (wd_userId job) = Some requester \<and>
   rooms (snd (pdfFailed env_ok job (Error ''store down'') (world_with pending_room))) ''r1''
     = Some closed_room \<and>
   fst (pdfFailed env_ok job (Error ''store down'') (world_with pending_room)) = Inr () \<and>
   sent (snd (pdfFailed env_ok job (Error ''store down'') (world_with pending_room)))
     = [DirectMessage ''u1'' ''rocket.cat'' ''dm1'',
        SendMessage ''rocket.cat'' ''dm1'' ''pdf_error_message: store down''] \<and>
   users world_without_requester (wd_userId job) = None \<and>
   fst (pdfFailed env_ok job (Error ''store down'') world_without_requester) = Inr () \<and>
   sent (snd (pdfFailed env_ok job (Error ''store down'') world_without_requester)) = [] \<and>
   currentJobNumber (world_with pending_room) < maxNumberOfConcurrentJobs (world_with pending_room) \<and>
   fst (workOnPdf env_store_fails ''omnichannel-transcript'' job (world_with pending_room)) = Inr () \<and>
   currentJobNumber (snd (workOnPdf env_store_fails ''omnichannel-transcript'' job
                            (world_with pending_room))) = 0 \<and>
   fst (stream_on_end env_upload_fails the_stream (world_with pending_room)) = Inr () \<and>
   currentJobNumber (snd (stream_on_end env_upload_fails the_stream (world_with pending_room))) = 0"
proof -
  let ?w = "world_with pending_room"
  let ?e = "Error ''store down''"
  let ?f = "Error ''disk full''"
  let ?t = "''omnichannel-transcript''"
  have h1: "rooms ?w (wd_rid job) = Some pending_room \<and> users ?w (wd_userId job) = Some requester"
    by code_simp
  have s1: "createDirectMessage env_ok (wd_userId job) ''rocket.cat'' = Inr ''dm1'' \<and>
            translate env_ok ''pdf_error_message'' requester = Inr ''pdf_error_message'' \<and>
            sendMessage env_ok ''rocket.cat'' ''dm1''
              (''pdf_error_message'' @ '': '' @ err_message ?e) = None"
    by code_simp
  have h2: "rooms world_without_requester (wd_rid job) = None \<or>
            users world_without_requester (wd_userId job) = None"
    by code_simp
  have h3: "currentJobNumber ?w < maxNumberOfConcurrentJobs ?w \<and>
            workOnPdf_try env_store_fails ?t job (workOnPdf_enter job ?w)
              = (Inl ?e, workOnPdf_enter job ?w)"
    by (simp add: world_with_def new_service_def workOnPdf_try_def workOnPdf_enter_def
          add_log_def job_def env_store_fails_def env_ok_def)
  have h4: "ps_details the_stream = job \<and>
            uploadFile env_upload_fails (wd_userId job) (concat (ps_chunks the_stream))
              (transcript_file_name env_upload_fails the_stream) (wd_rid job) = Inl ?f"
    by (simp add: the_stream_def env_upload_fails_def env_ok_def)
  have v: "sent ?w = []" "currentJobNumber ?w = 0" "sent world_without_requester = []"
      "wd_userId job = ''u1''" "wd_rid job = ''r1''"
      "pending_room\<lparr>pdfTranscriptRequested := False\<rparr> = closed_room"
      "users world_without_requester (wd_userId job) = None"
    by (simp_all add: world_with_def new_service_def world_without_requester_def
          pending_room_def closed_room_def job_def)
  note t1 = terminal_failure_notifies[of ?w job env_ok ?e]
  have c1: "rooms (snd (pdfFailed env_ok job ?e ?w)) ''r1'' = Some closed_room"
    using t1 h1 v by metis
  have c2: "fst (pdfFailed env_ok job ?e ?w) = Inr () \<and>
            sent (snd (pdfFailed env_ok job ?e ?w)) =
              sent ?w @ [DirectMessage (wd_userId job) ''rocket.cat'' ''dm1'',
                SendMessage ''rocket.cat'' ''dm1''
                  (''pdf_error_message'' @ '': '' @ err_message ?e)]"
    using t1 h1 s1 by blast
  note t2 = terminal_failure_notifies[of world_without_requester job env_ok ?e]
  have c3: "pdfFailed env_ok job ?e world_without_requester =
              (Inr (), world_without_requester\<lparr>log := log world_without_requester @
                 [LogError (''Transcript for '' @ job_tag job @ '' - Failed: ''
                            @ err_message ?e)]\<rparr>)"
    using t2 h2 by blast
  note t3 = terminal_failure_notifies[of "workOnPdf_enter job ?w" job env_store_fails ?e]
  have c4: "fst (workOnPdf env_store_fails ?t job ?w)
              = fst (pdfFailed env_store_fails job ?e (workOnPdf_enter job ?w)) \<and>
            snd (workOnPdf env_store_fails ?t job ?w) =
              (snd (pdfFailed env_store_fails job ?e (workOnPdf_enter job ?w)))
                \<lparr>currentJobNumber := currentJobNumber ?w,
                 counter_writes := counter_writes (workOnPdf_enter job ?w)
                                    @ [currentJobNumber ?w]\<rparr>"
    using t3 h3 by blast
  have r4: "fst (pdfFailed env_store_fails job ?e (workOnPdf_enter job ?w)) = Inr ()"
    by code_simp
  note t4 = terminal_failure_notifies[of ?w job env_upload_fails ?f]
  have c5: "stream_on_end env_upload_fails the_stream ?w = pdfFailed env_upload_fails job ?f ?w \<and>
            currentJobNumber (snd (stream_on_end env_upload_fails the_stream ?w))
              = currentJobNumber ?w"
    using t4 h4 by blast
  have r5: "fst (pdfFailed env_upload_fails job ?f ?w) = Inr ()"
    by code_simp
  have d0: "fst (pdfFailed env_ok job ?e ?w) = Inr ()"
      "sent (snd (pdfFailed env_ok job ?e ?w))
         = [DirectMessage ''u1'' ''rocket.cat'' ''dm1'',
            SendMessage ''rocket.cat'' ''dm1'' ''pdf_error_message: store down'']"
    using c2 v by simp_all
  have d1: "fst (pdfFailed env_ok job ?e world_without_requester) = Inr ()"
      "sent (snd (pdfFailed env_ok job ?e world_without_requester)) = []"
    using c3 v by simp_all
  have d2: "fst (workOnPdf env_store_fails ?t job ?w) = Inr ()"
      "currentJobNumber (snd (workOnPdf env_store_fails ?t job ?w)) = 0"
    using c4 r4 v by simp_all
  have d3: "fst (stream_on_end env_upload_fails the_stream ?w) = Inr ()"
      "currentJobNumber (snd (stream_on_end env_upload_fails the_stream ?w)) = 0"
    using c5 r5 v(2) by metis+
  from h1 h3 v(7) c1 d0 d1 d2 d3 show ?thesis by blast
qed

text \<open>
  Claim C9 fails as stated: when the requesting user has been deleted, a failed job
  leaves the room flagged as pending, and so does a successful upload, which then sets
  no file reference either. Both \<open>pdfFailed\<close> and \<open>pdfComplete\<close> return behind
  \<^verbatim>\<open>if (!user) return;\<close> before they write to the room.
\<close>

theorem deleted_requester_leaves_room_pending:
  "users world_without_requester ''u1'' = None \<and>
   rooms world_without_requester ''r1'' = Some pending_room \<and>
   pdfTranscriptRequested pending_room \<and> pdfTranscriptFileId pending_room = None \<and>
   fst (workOnPdf env_store_fails ''omnichannel-transcript'' job world_without_requester) = Inr () \<and>
   rooms (snd (workOnPdf env_store_fails ''omnichannel-transcript'' job world_without_requester)) ''r1''
     = Some pending_room \<and>
   fst (stream_on_end env_ok the_stream world_without_requester) = Inr () \<and>
   rooms (snd (stream_on_end env_ok the_stream world_without_requester)) ''r1''
     = Some pending_room"
  by code_simp

text \<open>
  Claim C9, as amended. While the room and the requesting user exist, a successful
  upload makes \<open>pdfComplete\<close> issue exactly one write, which sets the room's transcript
  file reference to the uploaded file (the pending flag stays set beside it), and a
  failure makes \<open>pdfFailed\<close> issue exactly one write, which clears the pending flag.
\<close>

theorem terminal_outcome_with_requester:
  assumes "rooms w (wd_rid d) = Some r" and "users w (wd_userId d) = Some u"
  shows "(\<forall>p fl. ps_details p = d \<and>
            uploadFile env (wd_userId d) (concat (ps_chunks p)) (transcript_file_name env p)
              (wd_rid d) = Inr fl \<longrightarrow>
            fst (stream_on_end env p w) = Inr () \<and>
            rooms (snd (stream_on_end env p w)) (wd_rid d)
              = Some (r\<lparr>pdfTranscriptFileId := Some (upload_id fl)\<rparr>) \<and>
            writes (snd (stream_on_end env p w))
              = writes w @ [SetPdfTranscriptFileId (wd_rid d) (upload_id fl)]) \<and>
         (\<forall>e. rooms (snd (pdfFailed env d e w)) (wd_rid d)
                = Some (r\<lparr>pdfTranscriptRequested := False\<rparr>) \<and>
              writes (snd (pdfFailed env d e w))
                = writes w @ [UnsetTranscriptRequestedPdf (wd_rid d)])"
proof (intro conjI allI impI)
  fix p fl
  assume a: "ps_details p = d \<and>
            uploadFile env (wd_userId d) (concat (ps_chunks p)) (transcript_file_name env p)
              (wd_rid d) = Inr fl"
  let ?w1 = "add_sent (UploadFile (wd_userId d) (concat (ps_chunks p))
                         (transcript_file_name env p) (wd_rid d)) w"
  have eq: "stream_on_end env p w = (Inr (), snd (pdfComplete env d fl ?w1))"
    using a pdfComplete_returns[of env d fl ?w1]
    by (cases "pdfComplete env d fl ?w1") (simp add: stream_on_end_def Let_def)
  have "rooms ?w1 (wd_rid d) = Some r" and "users ?w1 (wd_userId d) = Some u"
    using assms by (simp_all add: add_sent_def)
  from pdfComplete_store[OF this, of env fl]
  have st: "rooms (snd (pdfComplete env d fl ?w1))
           = (rooms w)(wd_rid d \<mapsto> r\<lparr>pdfTranscriptFileId := Some (upload_id fl)\<rparr>)"
       "writes (snd (pdfComplete env d fl ?w1))
           = writes w @ [SetPdfTranscriptFileId (wd_rid d) (upload_id fl)]"
    by (simp_all add: add_sent_def)
  show "fst (stream_on_end env p w) = Inr ()" by (simp add: eq)
  show "rooms (snd (stream_on_end env p w)) (wd_rid d)
              = Some (r\<lparr>pdfTranscriptFileId := Some (upload_id fl)\<rparr>)"
    by (simp add: eq st)
  show "writes (snd (stream_on_end env p w))
              = writes w @ [SetPdfTranscriptFileId (wd_rid d) (upload_id fl)]"
    by (simp add: eq st)
next
  fix e
  show "rooms (snd (pdfFailed env d e w)) (wd_rid d)
                = Some (r\<lparr>pdfTranscriptRequested := False\<rparr>)"
    using assms by (simp add: pdfFailed_clears)
  show "writes (snd (pdfFailed env d e w))
                = writes w @ [UnsetTranscriptRequestedPdf (wd_rid d)]"
    using assms by (simp add: pdfFailed_clears[of w d r u])
qed

theorem terminal_outcome_with_requester_witness:
  "rooms (world_with pending_room) (wd_rid job) = Some pending_room \<and>
   users (world_with pending_room) (wd_userId job) = Some requester \<and>
   uploadFile env_ok ''u1'' (concat (ps_chunks the_stream))
     (transcript_file_name env_ok the_stream) ''r1'' = Inr transcript_pdf \<and>
   fst (stream_on_end env_ok the_stream (world_with pending_room)) = Inr () \<and>
   rooms (snd (stream_on_end env_ok the_stream (world_with pending_room))) ''r1''
     = Some (pending_room\<lparr>pdfTranscriptFileId := Some ''pdf1''\<rparr>) \<and>
   writes (snd (stream_on_end env_ok the_stream (world_with pending_room)))
     = [SetPdfTranscriptFileId ''r1'' ''pdf1''] \<and>
   rooms (snd (pdfFailed env_ok job (Error ''render failed'') (world_with pending_room))) ''r1''
     = Some closed_room \<and>
   writes (snd (pdfFailed env_ok job (Error ''render failed'') (world_with pending_room)))
     = [UnsetTranscriptRequestedPdf ''r1'']"
proof -
  let ?w = "world_with pending_room"
  have h: "rooms ?w (wd_rid job) = Some pending_room" "users ?w (wd_userId job) = Some requester"
    by code_simp+
  have u: "ps_details the_stream = job \<and>
           uploadFile env_ok (wd_userId job) (concat (ps_chunks the_stream))
             (transcript_file_name env_ok the_stream) (wd_rid job) = Inr transcript_pdf"
    by code_simp
  have v: "writes ?w = []" "wd_userId job = ''u1''" "wd_rid job = ''r1''"
      "upload_id transcript_pdf = ''pdf1''"
      "pending_room\<lparr>pdfTranscriptRequested := False\<rparr> = closed_room"
    by (simp_all add: world_with_def new_service_def job_def transcript_pdf_def
          pending_room_def closed_room_def)
  note t = terminal_outcome_with_requester[OF h, of env_ok]
  have c1: "fst (stream_on_end env_ok the_stream ?w) = Inr () \<and>
            rooms (snd (stream_on_end env_ok the_stream ?w)) (wd_rid job)
              = Some (pending_room\<lparr>pdfTranscriptFileId := Some (upload_id transcript_pdf)\<rparr>) \<and>
            writes (snd (stream_on_end env_ok the_stream ?w))
              = writes ?w @ [SetPdfTranscriptFileId (wd_rid job) (upload_id transcript_pdf)]"
    using t u by blast
  have c2: "rooms (snd (pdfFailed env_ok job (Error ''render failed'') ?w)) (wd_rid job)
              = Some (pending_room\<lparr>pdfTranscriptRequested := False\<rparr>) \<and>
            writes (snd (pdfFailed env_ok job (Error ''render failed'') ?w))
              = writes ?w @ [UnsetTranscriptRequestedPdf (wd_rid job)]"
    using t by blast
  from h u c1 c2 v show ?thesis by simp
qed

text \<open>
  Claim C10 fails as stated: an error that \<open>pdfFailed\<close> raises while it notifies the
  requester (here the message service rejecting the send) leaves \<open>workOnPdf\<close> through
  its \<^verbatim>\<open>catch\<close> clause, and nothing logs it.
\<close>

theorem failed_notification_is_raised:
  "currentJobNumber (world_with pending_room) < maxNumberOfConcurrentJobs (world_with pending_room) \<and>
   fst (workOnPdf env_send_fails ''omnichannel-transcript'' job (world_with pending_room))
     = Inl (Error ''send failed'') \<and>
   log (snd (workOnPdf env_send_fails ''omnichannel-transcript'' job (world_with pending_room)))
     = [LogInfo ''Processing transcript for room r1 by user u1 - Received from queue'',
        LogError ''Transcript for room r1 by user u1 - Failed: store down'',
        LogInfo ''Transcript for room r1 by user u1 - Sending error message to user'']"
  by code_simp

text \<open>
  Claim C10, as amended. \<open>workOnPdf\<close> raises \<^verbatim>\<open>retry\<close> when the admission check
  fails. After
  admission it returns when the \<^verbatim>\<open>try\<close> block returns; every error the \<^verbatim>\<open>try\<close> block
  raises is caught and handed to \<open>pdfFailed\<close>, whose outcome is the outcome of
  \<open>workOnPdf\<close>: it returns when the room or the requesting user is gone, and when opening
  the direct conversation, translating and sending succeed. A rejected upload is handed
  to \<open>pdfFailed\<close> by the listener of the stream's end.
\<close>

theorem workOnPdf_raises:
  "(maxNumberOfConcurrentJobs w \<le> currentJobNumber w \<longrightarrow>
      fst (workOnPdf env t d w) = Inl (Error ''retry'')) \<and>
   (currentJobNumber w < maxNumberOfConcurrentJobs w \<longrightarrow>
      (\<forall>u w'. workOnPdf_try env t d (workOnPdf_enter d w) = (Inr u, w') \<longrightarrow>
         fst (workOnPdf env t d w) = Inr ()) \<and>
      (\<forall>e w'. workOnPdf_try env t d (workOnPdf_enter d w) = (Inl e, w') \<longrightarrow>
         fst (workOnPdf env t d w) = fst (pdfFailed env d e w') \<and>
         (rooms w (wd_rid d) = None \<or> users w (wd_userId d) = None \<longrightarrow>
            fst (workOnPdf env t d w) = Inr ()) \<and>
         (\<forall>u dm tx. users w (wd_userId d) = Some u \<and>
             createDirectMessage env (wd_userId d) ''rocket.cat'' = Inr dm \<and>
             translate env ''pdf_error_message'' u = Inr tx \<and>
             sendMessage env ''rocket.cat'' dm (tx @ '': '' @ err_message e) = None \<longrightarrow>
             fst (workOnPdf env t d w) = Inr ()))) \<and>
   (\<forall>p e. uploadFile env (wd_userId (ps_details p)) (concat (ps_chunks p))
            (transcript_file_name env p) (wd_rid (ps_details p)) = Inl e \<longrightarrow>
      stream_on_end env p w = pdfFailed env (ps_details p) e w)"
proof (intro conjI impI allI)
  assume "maxNumberOfConcurrentJobs w \<le> currentJobNumber w"
  then show "fst (workOnPdf env t d w) = Inl (Error ''retry'')"
    by (simp add: workOnPdf_def)
next
  fix u w'
  assume "currentJobNumber w < maxNumberOfConcurrentJobs w"
    and "workOnPdf_try env t d (workOnPdf_enter d w) = (Inr u, w')"
  then show "fst (workOnPdf env t d w) = Inr ()"
    by (simp add: workOnPdf_admitted workOnPdf_catch_def workOnPdf_finally_def)
next
  fix e w'
  assume adm: "currentJobNumber w < maxNumberOfConcurrentJobs w"
    and body: "workOnPdf_try env t d (workOnPdf_enter d w) = (Inl e, w')"
  from workOnPdf_try_frame[OF body]
  have fr: "rooms w' = rooms w" "users w' = users w"
    by (simp_all add: workOnPdf_enter_def add_log_def Let_def)
  show routed: "fst (workOnPdf env t d w) = fst (pdfFailed env d e w')"
    using adm body by (simp add: workOnPdf_failed workOnPdf_finally_def)
  show "fst (workOnPdf env t d w) = Inr ()"
    if "rooms w (wd_rid d) = None \<or> users w (wd_userId d) = None"
    using that pdfFailed_skips[of w' d env e] by (simp add: routed fr)
  show "fst (workOnPdf env t d w) = Inr ()"
    if "users w (wd_userId d) = Some u \<and>
        createDirectMessage env (wd_userId d) ''rocket.cat'' = Inr dm \<and>
        translate env ''pdf_error_message'' u = Inr tx \<and>
        sendMessage env ''rocket.cat'' dm (tx @ '': '' @ err_message e) = None" for u dm tx
  proof (cases "rooms w (wd_rid d)")
    case None
    then show ?thesis using pdfFailed_skips[of w' d env e] by (simp add: routed fr)
  next
    case (Some r)
    with that show ?thesis
      using pdfFailed_sends(1)[of w' d r u env dm tx e] by (simp add: routed fr)
  qed
next
  fix p e
  assume "uploadFile env (wd_userId (ps_details p)) (concat (ps_chunks p))
            (transcript_file_name env p) (wd_rid (ps_details p)) = Inl e"
  then show "stream_on_end env p w = pdfFailed env (ps_details p) e w"
    by (rule stream_on_end_failed)
qed

theorem workOnPdf_raises_witness:
  "maxNumberOfConcurrentJobs full_service \<le> currentJobNumber full_service \<and>
   fst (workOnPdf env_ok ''omnichannel-transcript'' job full_service) = Inl (Error ''retry'') \<and>
   currentJobNumber (world_with pending_room) < maxNumberOfConcurrentJobs (world_with pending_room) \<and>
   fst (workOnPdf_try env_ok ''omnichannel-transcript'' job
          (workOnPdf_enter job (world_with pending_room))) = Inr () \<and>
   fst (workOnPdf env_ok ''omnichannel-transcript'' job (world_with pending_room)) = Inr () \<and>
   fst (workOnPdf_try env_store_fails ''omnichannel-transcript'' job
          (workOnPdf_enter job (world_with pending_room))) = Inl (Error ''store down'') \<and>
   fst (workOnPdf env_store_fails ''omnichannel-transcript'' job (world_with pending_room)) = Inr () \<and>
   users world_without_requester (wd_userId job) = None \<and>
   fst (workOnPdf env_send_fails ''omnichannel-transcript'' job world_without_requester) = Inr () \<and>
   uploadFile env_upload_fails (wd_userId (ps_details the_stream)) (concat (ps_chunks the_stream))
     (transcript_file_name env_upload_fails the_stream) (wd_rid (ps_details the_stream))
     = Inl (Error ''disk full'') \<and>
   stream_on_end env_upload_fails the_stream (world_with pending_room)
     = pdfFailed env_upload_fails (ps_details the_stream) (Error ''disk full'')
         (world_with pending_room)"
proof -
  let ?w = "world_with pending_room"
  let ?e = "Error ''store down''"
  let ?t = "''omnichannel-transcript''"
  have h0: "maxNumberOfConcurrentJobs full_service \<le> currentJobNumber full_service"
    by code_simp
  have adm: "currentJobNumber ?w < maxNumberOfConcurrentJobs ?w"
      "currentJobNumber world_without_requester < maxNumberOfConcurrentJobs world_without_requester"
    by code_simp+
  have b1: "fst (workOnPdf_try env_ok ?t job (workOnPdf_enter job ?w)) = Inr ()"
    by code_simp
  then have b1': "workOnPdf_try env_ok ?t job (workOnPdf_enter job ?w)
                   = (Inr (), snd (workOnPdf_try env_ok ?t job (workOnPdf_enter job ?w)))"
    by (metis prod.collapse)
  have b2: "fst (workOnPdf_try env_store_fails ?t job (workOnPdf_enter job ?w)) = Inl ?e"
    by code_simp
  then have b2': "workOnPdf_try env_store_fails ?t job (workOnPdf_enter job ?w)
                   = (Inl ?e, snd (workOnPdf_try env_store_fails ?t job (workOnPdf_enter job ?w)))"
    by (metis prod.collapse)
  have b3: "fst (workOnPdf_try env_send_fails ?t job (workOnPdf_enter job world_without_requester))
              = Inl ?e"
    by code_simp
  then have b3': "workOnPdf_try env_send_fails ?t job (workOnPdf_enter job world_without_requester)
                   = (Inl ?e, snd (workOnPdf_try env_send_fails ?t job
                                     (workOnPdf_enter job world_without_requester)))"
    by (metis prod.collapse)
  have s: "users ?w (wd_userId job) = Some requester \<and>
           createDirectMessage env_store_fails (wd_userId job) ''rocket.cat'' = Inr ''dm1'' \<and>
           translate env_store_fails ''pdf_error_message'' requester = Inr ''pdf_error_message'' \<and>
           sendMessage env_store_fails ''rocket.cat'' ''dm1''
             (''pdf_error_message'' @ '': '' @ err_message ?e) = None"
    by code_simp
  have g: "users world_without_requester (wd_userId job) = None"
    by code_simp
  have c0: "fst (workOnPdf env_ok ?t job full_service) = Inl (Error ''retry'')"
    using workOnPdf_raises[of full_service env_ok ?t job] h0 by blast
  have c1: "fst (workOnPdf env_ok ?t job ?w) = Inr ()"
    using workOnPdf_raises[of ?w env_ok ?t job] adm(1) b1' by blast
  have c2: "fst (workOnPdf env_store_fails ?t job ?w) = Inr ()"
    using workOnPdf_raises[of ?w env_store_fails ?t job] adm(1) b2' s by blast
  have c3: "fst (workOnPdf env_send_fails ?t job world_without_requester) = Inr ()"
    using workOnPdf_raises[of world_without_requester env_send_fails ?t job] adm(2) b3' g
    by blast
  have up: "uploadFile env_upload_fails (wd_userId (ps_details the_stream))
              (concat (ps_chunks the_stream)) (transcript_file_name env_upload_fails the_stream)
              (wd_rid (ps_details the_stream)) = Inl (Error ''disk full'')"
    by (simp add: env_upload_fails_def env_ok_def)
  have c4: "stream_on_end env_upload_fails the_stream ?w
              = pdfFailed env_upload_fails (ps_details the_stream) (Error ''disk full'') ?w"
    using workOnPdf_raises[of ?w env_upload_fails ?t job] up by blast
  from h0 adm(1) b1 b2 g c0 c1 c2 c3 up c4 show ?thesis by blast
qed

end
